theory Spec2Isabelle
  imports Complex_Main
begin

section \<open>GPU telemetry route: \<open>src/ui/src/app/api/gpu/route.ts\<close>\<close>

text \<open>
  The route handler \<open>GET\<close> reads the host platform, runs a handful of external commands
  through \<open>execAsync\<close> and turns their text output into a JSON object. The embedding
  makes the host explicit: the platform string and, for every command line, whether the
  command is rejected (with an \<open>Error\<close>) or resolves with its standard output. Every
  function returns, beside its value, the list of the commands it has run, in order.
\<close>

subsection \<open>JavaScript values\<close>

text \<open>
  A JavaScript number is \<open>NaN\<close>, an infinity or a finite value. Finite values are kept
  as exact rationals: the model computes the mathematical value that JavaScript rounds to
  the nearest double, so it agrees with the code wherever the values involved are doubles
  (every integer below \<open>2^53\<close> in magnitude, every such integer divided by a power of
  two). Negative zero is not distinguished from zero.
\<close>

datatype number = NaN | PosInf | NegInf | Fin rat

text \<open>A field of a record of the response: a number, a string, or \<open>undefined\<close>.\<close>

datatype jsval = Undefined | Num number | Str string

text \<open>What a rejected promise or a \<open>throw\<close> carries: an \<open>Error\<close> with its message.\<close>

datatype exn = Error string

fun message :: "exn \<Rightarrow> string" where
  "message (Error m) = m"

subsection \<open>Strings\<close>

text \<open>
  Strings are lists of code units below 256. White space (for \<open>trim\<close>, \<open>parseInt\<close>,
  \<open>parseFloat\<close> and the regular expression class \<open>\s\<close>) is then TAB, LF, VT, FF, CR,
  SP and NBSP.
\<close>

definition is_ws :: "char \<Rightarrow> bool" where
  "is_ws c = (c = CHR 0x09 \<or> c = CHR 0x0A \<or> c = CHR 0x0B \<or> c = CHR 0x0C
            \<or> c = CHR 0x0D \<or> c = CHR 0x20 \<or> c = CHR 0xA0)"

definition trimStart :: "string \<Rightarrow> string" where
  "trimStart s = dropWhile is_ws s"

definition trim :: "string \<Rightarrow> string" where
  "trim s = rev (dropWhile is_ws (rev (dropWhile is_ws s)))"

text \<open>
  \<open>s.split(sep)\<close> for a separator \<open>sep = d # ds\<close> that is not empty: scanning from the
  left, every occurrence of the separator ends a piece; \<open>acc\<close> holds the current piece,
  reversed. The result is never empty.
\<close>

fun split_from :: "char \<Rightarrow> string \<Rightarrow> string \<Rightarrow> string \<Rightarrow> string list" where
  "split_from d ds acc [] = [rev acc]"
| "split_from d ds acc (c # cs) =
     (if c = d \<and> take (length ds) cs = ds
      then rev acc # split_from d ds [] (drop (length ds) cs)
      else split_from d ds (c # acc) cs)"

definition split :: "string \<Rightarrow> string \<Rightarrow> string list" where
  "split s sep = (case sep of d # ds \<Rightarrow> split_from d ds [] s | [] \<Rightarrow> map (\<lambda>c. [c]) s)"

text \<open>\<open>s.includes(sub)\<close>: \<open>sub\<close> occurs somewhere in \<open>s\<close>.\<close>

fun includes_str :: "string \<Rightarrow> string \<Rightarrow> bool" where
  "includes_str [] sub = (sub = [])"
| "includes_str (c # cs) sub = (take (length sub) (c # cs) = sub \<or> includes_str cs sub)"

text \<open>
  Destructuring an array that is too short binds \<open>undefined\<close>: a field of a line is a
  \<open>string option\<close>, and \<open>ToString\<close> is what \<open>parseInt\<close> and \<open>parseFloat\<close> apply to
  their argument first.
\<close>

fun ToString :: "string option \<Rightarrow> string" where
  "ToString None = ''undefined''"
| "ToString (Some s) = s"

fun field_val :: "string option \<Rightarrow> jsval" where
  "field_val None = Undefined"
| "field_val (Some s) = Str s"

fun nth_opt :: "'a list \<Rightarrow> nat \<Rightarrow> 'a option" where
  "nth_opt [] n = None"
| "nth_opt (x # xs) 0 = Some x"
| "nth_opt (x # xs) (Suc n) = nth_opt xs n"

subsection \<open>\<open>parseInt\<close> and \<open>parseFloat\<close>\<close>

definition is_digit :: "char \<Rightarrow> bool" where
  "is_digit c = (c \<in> set ''0123456789'')"

definition is_hex_digit :: "char \<Rightarrow> bool" where
  "is_hex_digit c = (c \<in> set ''0123456789abcdefABCDEF'')"

text \<open>The place of a character in a string, counted from 0.\<close>

fun position :: "char \<Rightarrow> string \<Rightarrow> int" where
  "position c [] = 0"
| "position c (d # ds) = (if c = d then 0 else 1 + position c ds)"

text \<open>The value of a digit; the letters count from ten, in either case.\<close>

definition digit_val :: "char \<Rightarrow> int" where
  "digit_val c =
    (if c \<in> set ''ABCDEF'' then 10 + position c ''ABCDEF''
     else position c ''0123456789abcdef'')"

text \<open>The value of a digit string in radix \<open>r\<close>, most significant digit first.\<close>

fun digits_val :: "int \<Rightarrow> int \<Rightarrow> string \<Rightarrow> int" where
  "digits_val r acc [] = acc"
| "digits_val r acc (c # cs) = digits_val r (acc * r + digit_val c) cs"

text \<open>
  \<open>parseInt(string)\<close> with no radix: skip leading white space, read a sign, switch to
  radix 16 after \<open>0x\<close> or \<open>0X\<close>, take the longest run of digits; no digit gives \<open>NaN\<close>.
  What follows the digits is ignored.
\<close>

definition parseInt :: "string \<Rightarrow> number" where
  "parseInt inputString =
    (let S = trimStart inputString;
         neg = (take 1 S = ''-'');
         S1 = (if take 1 S = ''+'' \<or> take 1 S = ''-'' then drop 1 S else S);
         hex = (take 2 S1 = ''0x'' \<or> take 2 S1 = ''0X'');
         S2 = (if hex then drop 2 S1 else S1);
         Z = (if hex then takeWhile is_hex_digit S2 else takeWhile is_digit S2);
         mathInt = digits_val (if hex then 16 else 10) 0 Z
     in if Z = [] then NaN
        else Fin (of_int (if neg then - mathInt else mathInt)))"

text \<open>
  \<open>parseFloat(string)\<close>: skip leading white space and take the longest prefix that is a
  \<open>StrDecimalLiteral\<close>: a sign, then \<open>Infinity\<close> or digits with an optional fraction
  (at least one digit before or after the point) and an optional exponent (\<open>e\<close> or \<open>E\<close>,
  a sign, at least one digit). No such prefix gives \<open>NaN\<close>.
\<close>

definition exponent_part :: "string \<Rightarrow> int" where
  "exponent_part r =
    (if take 1 r = ''e'' \<or> take 1 r = ''E'' then
       (let r1 = drop 1 r;
            eneg = (take 1 r1 = ''-'');
            r2 = (if take 1 r1 = ''+'' \<or> take 1 r1 = ''-'' then drop 1 r1 else r1);
            ed = takeWhile is_digit r2
        in if ed = [] then 0
           else (if eneg then - digits_val 10 0 ed else digits_val 10 0 ed))
     else 0)"

definition pow10 :: "int \<Rightarrow> rat" where
  "pow10 e = (if 0 \<le> e then 10 ^ nat e else 1 / 10 ^ nat (- e))"

definition parseFloat :: "string \<Rightarrow> number" where
  "parseFloat inputString =
    (let S = trimStart inputString;
         neg = (take 1 S = ''-'');
         S1 = (if take 1 S = ''+'' \<or> take 1 S = ''-'' then drop 1 S else S)
     in if take 8 S1 = ''Infinity'' then (if neg then NegInf else PosInf)
        else
          (let ip = takeWhile is_digit S1;
               r0 = dropWhile is_digit S1;
               dot = (take 1 r0 = ''.'');
               fp = (if dot then takeWhile is_digit (drop 1 r0) else []);
               r1 = (if dot then dropWhile is_digit (drop 1 r0) else r0);
               m = of_int (digits_val 10 0 (ip @ fp)) / 10 ^ length fp;
               v = m * pow10 (exponent_part r1)
           in if ip = [] \<and> fp = [] then NaN
              else Fin (if neg then - v else v)))"

subsection \<open>Arithmetic on numbers\<close>

fun num_add :: "number \<Rightarrow> number \<Rightarrow> number" where
  "num_add NaN y = NaN"
| "num_add x NaN = NaN"
| "num_add PosInf NegInf = NaN"
| "num_add NegInf PosInf = NaN"
| "num_add PosInf y = PosInf"
| "num_add NegInf y = NegInf"
| "num_add x PosInf = PosInf"
| "num_add x NegInf = NegInf"
| "num_add (Fin a) (Fin b) = Fin (a + b)"


text \<open>The sign of a number that is not \<open>NaN\<close>: \<open>-1\<close>, \<open>0\<close> or \<open>1\<close>.\<close>

fun num_sgn :: "number \<Rightarrow> int" where
  "num_sgn NaN = 0"
| "num_sgn PosInf = 1"
| "num_sgn NegInf = - 1"
| "num_sgn (Fin a) = (if a < 0 then - 1 else if a = 0 then 0 else 1)"

fun num_mul :: "number \<Rightarrow> number \<Rightarrow> number" where
  "num_mul NaN y = NaN"
| "num_mul x NaN = NaN"
| "num_mul (Fin a) (Fin b) = Fin (a * b)"
| "num_mul x y =
     (let s = num_sgn x * num_sgn y
      in if s = 0 then NaN else if 0 < s then PosInf else NegInf)"

fun num_div :: "number \<Rightarrow> number \<Rightarrow> number" where
  "num_div NaN y = NaN"
| "num_div x NaN = NaN"
| "num_div (Fin a) (Fin b) =
     (if b = 0 then (if a = 0 then NaN else if 0 < a then PosInf else NegInf)
      else Fin (a / b))"
| "num_div (Fin a) y = Fin 0"
| "num_div x (Fin b) =
     (if (0 \<le> b) = (x = PosInf) then PosInf else NegInf)"
| "num_div x y = NaN"

text \<open>\<open>Math.round\<close>: the nearest integer, a tie going up.\<close>

fun Math_round :: "number \<Rightarrow> number" where
  "Math_round (Fin a) = Fin (of_int \<lfloor>a + 1 / 2\<rfloor>)"
| "Math_round x = x"

text \<open>\<open>x || y\<close> on numbers: zero and \<open>NaN\<close> are falsy.\<close>

definition num_or :: "number \<Rightarrow> number \<Rightarrow> number" where
  "num_or x y = (if x = NaN \<or> x = Fin 0 then y else x)"

subsection \<open>The host\<close>

text \<open>
  \<open>os.platform()\<close> and the outcome of every command line given to \<open>execAsync\<close>:
  \<open>Inl\<close> when the promise is rejected (the command is missing or exits with a status
  other than zero), \<open>Inr stdout\<close> when it resolves. The handler runs no command twice.
\<close>

record host =
  platform :: string
  exec :: "string \<Rightarrow> exn + string"

text \<open>A computation: the commands it has run, in order, and its value.\<close>

type_synonym 'a proc = "string list \<times> 'a"

definition execAsync :: "host \<Rightarrow> string \<Rightarrow> (exn + string) proc" where
  "execAsync h command = ([command], exec h command)"

subsection \<open>The records of the response\<close>

record utilization_obj =
  util_gpu :: jsval
  util_memory :: jsval

record memory_obj =
  mem_total :: jsval
  mem_free :: jsval
  mem_used :: jsval

record power_obj =
  power_draw :: jsval
  power_limit :: jsval

record clocks_obj =
  clocks_graphics :: jsval
  clocks_memory :: jsval

record fan_obj =
  fan_speed :: jsval

text \<open>
  One entry of \<open>gpus\<close>. The keys \<open>driverVersion\<close>, \<open>type\<close>, \<open>model\<close> and \<open>cores\<close> are
  not present in every object: \<open>None\<close> is a missing key.
\<close>

record gpu =
  index :: jsval
  name :: jsval
  driverVersion :: "jsval option"
  temperature :: jsval
  utilization :: utilization_obj
  memory :: memory_obj
  gpu_power :: power_obj
  clocks :: clocks_obj
  fan :: fan_obj
  gpu_type :: "string option"
  model :: "string option"
  cores :: "jsval option"

record snapshot =
  hasNvidiaSmi :: bool
  hasMps :: bool
  snap_platform :: string
  gpus :: "gpu list"
  error :: "string option"

record response =
  body :: snapshot
  status :: nat

text \<open>The string that the code writes where a value is not known.\<close>

definition unknown :: jsval where
  "unknown = Str ''N/A''"

subsection \<open>\<open>checkNvidiaSmi\<close>\<close>

definition checkNvidiaSmi :: "host \<Rightarrow> bool \<Rightarrow> bool proc" where
  "checkNvidiaSmi h isWindows =
    (let (t, r) = (if isWindows then execAsync h ''nvidia-smi -L''
                   else execAsync h ''which nvidia-smi'')
     in (t, case r of Inr _ \<Rightarrow> True | Inl _ \<Rightarrow> False))"

subsection \<open>\<open>getGpuStats\<close>\<close>

definition query_command :: string where
  "query_command = ''nvidia-smi --query-gpu=index,name,driver_version,temperature.gpu,utilization.gpu,utilization.memory,memory.total,memory.free,memory.used,power.draw,power.limit,clocks.current.graphics,clocks.current.memory,fan.speed --format=csv,noheader,nounits''"

text \<open>The body of the \<open>map\<close> over the lines of the output.\<close>

definition parse_line :: "string \<Rightarrow> gpu" where
  "parse_line line =
    (let items = map trim (split line '', '');
         f = (\<lambda>i. ToString (nth_opt items i))
     in \<lparr> index = Num (parseInt (f 0)),
          name = field_val (nth_opt items 1),
          driverVersion = Some (field_val (nth_opt items 2)),
          temperature = Num (parseInt (f 3)),
          utilization = \<lparr> util_gpu = Num (parseInt (f 4)),
                          util_memory = Num (parseInt (f 5)) \<rparr>,
          memory = \<lparr> mem_total = Num (parseInt (f 6)),
                     mem_free = Num (parseInt (f 7)),
                     mem_used = Num (parseInt (f 8)) \<rparr>,
          gpu_power = \<lparr> power_draw = Num (parseFloat (f 9)),
                        power_limit = Num (parseFloat (f 10)) \<rparr>,
          clocks = \<lparr> clocks_graphics = Num (parseInt (f 11)),
                     clocks_memory = Num (parseInt (f 12)) \<rparr>,
          fan = \<lparr> fan_speed = Num (num_or (parseInt (f 13)) (Fin 0)) \<rparr>,
          gpu_type = None,
          model = None,
          cores = None \<rparr>)"

definition getGpuStats :: "host \<Rightarrow> bool \<Rightarrow> (exn + gpu list) proc" where
  "getGpuStats h isWindows =
    (let (t, r) = execAsync h query_command
     in (t, case r of
              Inl e \<Rightarrow> Inl e
            | Inr stdout \<Rightarrow> Inr (map parse_line (split (trim stdout) [CHR 0x0A]))))"

subsection \<open>\<open>getMpsInfo\<close>\<close>

text \<open>
  \<open>vmStat.match(/label\s+(\d+)/)?.[1]\<close>: the leftmost place where the label is
  followed by at least one white space character and then at least one digit; the
  captured group is the whole run of digits. \<open>None\<close> when there is no such place.
\<close>

definition capture_after :: "string \<Rightarrow> string option" where
  "capture_after r =
    (let w = takeWhile is_ws r;
         d = takeWhile is_digit (dropWhile is_ws r)
     in if w \<noteq> [] \<and> d \<noteq> [] then Some d else None)"

definition match_here :: "string \<Rightarrow> string \<Rightarrow> string option" where
  "match_here label s =
    (if take (length label) s = label then capture_after (drop (length label) s) else None)"

fun match_label :: "string \<Rightarrow> string \<Rightarrow> string option" where
  "match_label label [] = match_here label []"
| "match_label label (c # cs) =
     (case match_here label (c # cs) of
        Some d \<Rightarrow> Some d
      | None \<Rightarrow> match_label label cs)"

text \<open>\<open>parseInt(vmStat.match(...)?.[1] || '0')\<close>; a captured group is never empty.\<close>

definition pages :: "string \<Rightarrow> string \<Rightarrow> number" where
  "pages label vmStat =
    parseInt (case match_label label vmStat of Some d \<Rightarrow> d | None \<Rightarrow> ''0'')"

definition pageSize :: number where
  "pageSize = Fin 4096"

text \<open>The inner \<open>try\<close> around \<open>vm_stat\<close>: \<open>(usedMemoryMB, freeMemoryMB)\<close>.\<close>

definition vm_stat_memory :: "exn + string \<Rightarrow> jsval \<times> jsval" where
  "vm_stat_memory r =
    (case r of
       Inl vmStatError \<Rightarrow> (Str ''N/A'', Str ''N/A'')
     | Inr vmStat \<Rightarrow>
         (let pagesActive = pages ''Pages active:'' vmStat;
              pagesWired = pages ''Pages wired down:'' vmStat;
              pagesInactive = pages ''Pages inactive:'' vmStat;
              pagesFree = pages ''Pages free:'' vmStat;
              usedPages = num_add (num_add pagesActive pagesWired) pagesInactive
          in (Num (Math_round (num_div (num_mul usedPages pageSize) (Fin (1024 * 1024)))),
              Num (Math_round (num_div (num_mul pagesFree pageSize) (Fin (1024 * 1024)))))))"

text \<open>
  The inner \<open>try\<close> around \<open>system_profiler\<close>: the \<open>cores\<close> key of the record, missing
  in the fallback. \<open>gpuCores.split(':')[1].trim()\<close> throws when the output has no colon.
\<close>

definition cores_command :: string where
  "cores_command = ''system_profiler SPDisplaysDataType | grep \"Total Number of Cores\"''"

definition gpu_cores :: "exn + string \<Rightarrow> jsval option" where
  "gpu_cores r =
    (case r of
       Inl gpuError \<Rightarrow> None
     | Inr gpuCores \<Rightarrow>
         (case nth_opt (split gpuCores '':'') 1 of
            None \<Rightarrow> None
          | Some x \<Rightarrow> Some (Num (parseInt (trim x)))))"

text \<open>
  \<open>utilization.memory\<close>: \<open>typeof totalMemoryGB\<close> is always \<open>'number'\<close>, also for
  \<open>NaN\<close>, so the test is on \<open>usedMemoryMB\<close> alone.
\<close>

definition memory_utilization :: "jsval \<Rightarrow> number \<Rightarrow> jsval" where
  "memory_utilization usedMemoryMB totalMemoryGB =
    (case usedMemoryMB of
       Num u \<Rightarrow> Num (Math_round (num_mul (num_div u (num_mul totalMemoryGB (Fin 1024))) (Fin 100)))
     | _ \<Rightarrow> Str ''N/A'')"

definition mps_record :: "string \<Rightarrow> number \<Rightarrow> jsval \<Rightarrow> jsval \<Rightarrow> jsval option \<Rightarrow> gpu" where
  "mps_record stdout totalMemoryGB usedMemoryMB freeMemoryMB gpuCoreCount =
     \<lparr> index = Num (Fin 0),
       name = Str ''Apple Silicon GPU'',
       driverVersion = None,
       temperature = Str ''N/A'',
       utilization = \<lparr> util_gpu = Str ''N/A'',
                       util_memory = memory_utilization usedMemoryMB totalMemoryGB \<rparr>,
       memory = \<lparr> mem_total = Num (num_mul totalMemoryGB (Fin 1024)),
                  mem_free = freeMemoryMB,
                  mem_used = usedMemoryMB \<rparr>,
       gpu_power = \<lparr> power_draw = Str ''N/A'', power_limit = Str ''N/A'' \<rparr>,
       clocks = \<lparr> clocks_graphics = Str ''N/A'', clocks_memory = Str ''N/A'' \<rparr>,
       fan = \<lparr> fan_speed = Str ''N/A'' \<rparr>,
       gpu_type = Some ''mps'',
       model = Some (trim stdout),
       cores = gpuCoreCount \<rparr>"

text \<open>\<open>None\<close> is \<open>null\<close>. The outer \<open>try\<close> turns every rejection into \<open>null\<close>.\<close>

definition getMpsInfo :: "host \<Rightarrow> gpu option proc" where
  "getMpsInfo h =
    (let (t1, r1) = execAsync h ''sysctl -n machdep.cpu.brand_string''
     in case r1 of
          Inl e \<Rightarrow> (t1, None)
        | Inr stdout \<Rightarrow>
            if \<not> includes_str stdout ''Apple M'' then (t1, None)
            else
              (let (t2, r2) = execAsync h ''sysctl -n hw.memsize''
               in case r2 of
                    Inl e \<Rightarrow> (t1 @ t2, None)
                  | Inr memInfo \<Rightarrow>
                      (let totalMemoryBytes = parseInt (trim memInfo);
                           totalMemoryGB =
                             Math_round (num_div totalMemoryBytes (Fin (1024 * 1024 * 1024)));
                           (t3, r3) = execAsync h ''vm_stat'';
                           (usedMemoryMB, freeMemoryMB) = vm_stat_memory r3;
                           (t4, r4) = execAsync h cores_command
                       in (t1 @ t2 @ t3 @ t4,
                           Some (mps_record stdout totalMemoryGB usedMemoryMB freeMemoryMB
                                   (gpu_cores r4))))))"

subsection \<open>\<open>GET\<close>\<close>

text \<open>
  The body of the \<open>try\<close> block of \<open>GET\<close>: \<open>Inl\<close> when something in it throws, which is
  the rejection of the query command after a probe that succeeded, nothing else.
\<close>

definition GET_try :: "host \<Rightarrow> (exn + snapshot) proc" where
  "GET_try h =
    (let isWindows = (platform h = ''win32'');
         isMac = (platform h = ''darwin'');
         (t1, hasNvidiaSmi) = checkNvidiaSmi h isWindows;
         (t2, r2) = (if hasNvidiaSmi
                     then (let (t, r) = getGpuStats h isWindows
                           in (t, case r of
                                    Inl e \<Rightarrow> Inl e
                                  | Inr nvidiaGpus \<Rightarrow>
                                      Inr (map (\<lambda>gpu. gpu\<lparr>gpu_type := Some ''cuda''\<rparr>) nvidiaGpus)))
                     else ([], Inr []))
     in case r2 of
          Inl e \<Rightarrow> (t1 @ t2, Inl e)
        | Inr gpus1 \<Rightarrow>
            (let (t3, hasMps, gpus2) =
                   (if isMac
                    then (let (t, mpsInfo) = getMpsInfo h
                          in case mpsInfo of
                               Some m \<Rightarrow> (t, True, gpus1 @ [m])
                             | None \<Rightarrow> (t, False, gpus1))
                    else ([], False, gpus1))
             in (t1 @ t2 @ t3,
                 Inr \<lparr> hasNvidiaSmi = hasNvidiaSmi, hasMps = hasMps,
                       snap_platform = platform h, gpus = gpus2, error = None \<rparr>)))"

text \<open>\<open>GET\<close> with its \<open>catch\<close>: the commands run, and the response.\<close>

definition GET :: "host \<Rightarrow> response proc" where
  "GET h =
    (let (t, r) = GET_try h
     in case r of
          Inr s \<Rightarrow> (t, \<lparr> body = s, status = 200 \<rparr>)
        | Inl e \<Rightarrow>
            (t, \<lparr> body = \<lparr> hasNvidiaSmi = False, hasMps = False,
                            snap_platform = platform h, gpus = [],
                            error = Some (''Failed to fetch GPU stats: '' @ message e) \<rparr>,
                  status = 500 \<rparr>))"

subsection \<open>Notions used in the statements\<close>

text \<open>The command of the capability probe, by platform family.\<close>

definition probe_command :: "bool \<Rightarrow> string" where
  "probe_command isWindows = (if isWindows then ''nvidia-smi -L'' else ''which nvidia-smi'')"

text \<open>The third step of \<open>GET\<close>: \<open>getMpsInfo\<close> runs on \<open>darwin\<close> only.\<close>

definition mps_step :: "host \<Rightarrow> gpu option proc" where
  "mps_step h = (if platform h = ''darwin'' then getMpsInfo h else ([], None))"

text \<open>The function mapped over \<open>nvidiaGpus\<close>: \<open>gpu => ({ ...gpu, type: 'cuda' })\<close>.\<close>

definition tag_cuda :: "gpu \<Rightarrow> gpu" where
  "tag_cuda g = g\<lparr>gpu_type := Some ''cuda''\<rparr>"

text \<open>The trimmed fields of a line of the query output.\<close>

definition line_items :: "string \<Rightarrow> string list" where
  "line_items line = map trim (split line '', '')"

text \<open>
  A token that is no number for \<open>parseInt\<close> and \<open>parseFloat\<close> alike: after leading
  white space it starts with neither a digit, a sign, a point nor \<open>Infinity\<close>.
  A missing field reads as \<open>undefined\<close>.
\<close>

definition non_numeric :: "string option \<Rightarrow> bool" where
  "non_numeric f =
    (let S = trimStart (ToString f)
     in (case S of [] \<Rightarrow> True
         | c # cs \<Rightarrow> \<not> is_digit c \<and> c \<noteq> CHR ''+'' \<and> c \<noteq> CHR ''-'' \<and> c \<noteq> CHR ''.'')
        \<and> take 8 S \<noteq> ''Infinity'')"

text \<open>
  What the specification says of the total memory of the integrated GPU: the byte count
  in whole gigabytes, rounded, times 1024.
\<close>

definition spec_memory_total :: "int \<Rightarrow> int" where
  "spec_memory_total bytes = round (rat_of_int bytes / 2 ^ 30) * 1024"

text \<open>
  The second step of \<open>GET\<close> throws: the probe succeeds and the query command is
  rejected.
\<close>

definition cuda_step_throws :: "host \<Rightarrow> bool" where
  "cuda_step_throws h =
     (snd (checkNvidiaSmi h (platform h = ''win32'')) \<and> isl (exec h query_command))"

text \<open>A record of the integrated GPU.\<close>

definition is_mps :: "gpu \<Rightarrow> bool" where
  "is_mps g = (gpu_type g = Some ''mps'')"

subsection \<open>Hosts for the examples\<close>

text \<open>A host given by its platform and a table of outcomes; any other command fails.\<close>

definition host_of :: "string \<Rightarrow> (string \<times> (exn + string)) list \<Rightarrow> host" where
  "host_of p tbl =
     \<lparr> platform = p,
       exec = (\<lambda>c. case map_of tbl c of
                      Some r \<Rightarrow> r
                    | None \<Rightarrow> Inl (Error (''Command failed: '' @ c))) \<rparr>"

definition sample_vm_stat :: string where
  "sample_vm_stat = ''Mach Virtual Memory Statistics: (page size of 16384 bytes)\<newline>Pages free:                               12345.\<newline>Pages active:                            200000.\<newline>Pages inactive:                          190000.\<newline>''"

definition apple_host :: host where
  "apple_host = host_of ''darwin''
     [(''sysctl -n machdep.cpu.brand_string'', Inr ''Apple M2 Pro\<newline>''),
      (''sysctl -n hw.memsize'', Inr ''17179869184\<newline>''),
      (''vm_stat'', Inr sample_vm_stat),
      (cores_command, Inr ''      Total Number of Cores: 19\<newline>'')]"

definition apple_host_no_vm_stat :: host where
  "apple_host_no_vm_stat = host_of ''darwin''
     [(''sysctl -n machdep.cpu.brand_string'', Inr ''Apple M2 Pro\<newline>''),
      (''sysctl -n hw.memsize'', Inr ''17179869184\<newline>'')]"

definition intel_mac_host :: host where
  "intel_mac_host = host_of ''darwin''
     [(''sysctl -n machdep.cpu.brand_string'', Inr ''Intel Core i9\<newline>''),
      (''sysctl -n hw.memsize'', Inr ''17179869184\<newline>'')]"

definition sample_line :: string where
  "sample_line = ''0, Test GPU, 525.60, 45, 10, 5, 8192, 6000, 2192, 50.5, 150.0, 1500, 7000, 30''"

definition linux_cuda_host :: host where
  "linux_cuda_host = host_of ''linux''
     [(''which nvidia-smi'', Inr ''/usr/bin/nvidia-smi\<newline>''),
      (query_command, Inr (sample_line @ ''\<newline>'')),
      (''sysctl -n machdep.cpu.brand_string'', Inr ''Apple M2 Pro\<newline>''),
      (''sysctl -n hw.memsize'', Inr ''17179869184\<newline>'')]"

definition linux_query_fails_host :: host where
  "linux_query_fails_host = host_of ''linux''
     [(''which nvidia-smi'', Inr ''/usr/bin/nvidia-smi\<newline>'')]"

text \<open>
  A host with an Apple chip whose tools answer without a number: \<open>hw.memsize\<close>
  prints an empty line, \<open>vm_stat\<close> prints nothing, and the line of the core count
  has no digits after the colon.
\<close>

definition apple_host_blank :: host where
  "apple_host_blank = host_of ''darwin''
     [(''sysctl -n machdep.cpu.brand_string'', Inr ''Apple M2 Pro\<newline>''),
      (''sysctl -n hw.memsize'', Inr ''\<newline>''),
      (''vm_stat'', Inr []),
      (cores_command, Inr ''      Total Number of Cores: n/a\<newline>'')]"

text \<open>The record that \<open>getMpsInfo\<close> returns on that host.\<close>

definition blank_record :: gpu where
  "blank_record =
     mps_record ''Apple M2 Pro\<newline>'' NaN (Num (Fin 0)) (Num (Fin 0)) (Some (Num NaN))"

definition unavailable_line :: string where
  "unavailable_line = ''[N/A], Test GPU, 525.60, [N/A], [N/A], [N/A], [N/A], [N/A], [N/A], [N/A], [N/A], [N/A], [N/A], [N/A]''"

section \<open>Properties\<close>

subsection \<open>Unfolding the handler\<close>

lemmas js_eval = split_def trim_def trimStart_def is_ws_def is_digit_def is_hex_digit_def
  parseInt_def parseFloat_def digit_val_def exponent_part_def pow10_def num_or_def Let_def

lemma checkNvidiaSmi_fst: "fst (checkNvidiaSmi h w) = [probe_command w]"
  by (simp add: checkNvidiaSmi_def execAsync_def probe_command_def)

lemma checkNvidiaSmi_snd: "snd (checkNvidiaSmi h w) = (\<not> isl (exec h (probe_command w)))"
  by (cases w)
     (simp_all add: checkNvidiaSmi_def execAsync_def probe_command_def split: sum.splits)

lemma getGpuStats_fst: "fst (getGpuStats h w) = [query_command]"
  by (simp add: getGpuStats_def execAsync_def)

lemma getGpuStats_snd:
  "snd (getGpuStats h w) =
     (case exec h query_command of
        Inl e \<Rightarrow> Inl e
      | Inr out \<Rightarrow> Inr (map parse_line (split (trim out) [CHR 0x0A])))"
  by (simp add: getGpuStats_def execAsync_def)

lemma getMpsInfo_snd:
  "snd (getMpsInfo h) =
    (case exec h ''sysctl -n machdep.cpu.brand_string'' of
       Inl e \<Rightarrow> None
     | Inr stdout \<Rightarrow>
         if \<not> includes_str stdout ''Apple M'' then None
         else (case exec h ''sysctl -n hw.memsize'' of
                 Inl e \<Rightarrow> None
               | Inr memInfo \<Rightarrow>
                   Some (mps_record stdout
                     (Math_round (num_div (parseInt (trim memInfo)) (Fin (1024 * 1024 * 1024))))
                     (fst (vm_stat_memory (exec h ''vm_stat'')))
                     (snd (vm_stat_memory (exec h ''vm_stat'')))
                     (gpu_cores (exec h cores_command)))))"
  by (simp add: getMpsInfo_def execAsync_def Let_def split: sum.splits prod.splits)

lemma getMpsInfo_fst:
  "fst (getMpsInfo h) =
    (case exec h ''sysctl -n machdep.cpu.brand_string'' of
       Inl e \<Rightarrow> [''sysctl -n machdep.cpu.brand_string'']
     | Inr stdout \<Rightarrow>
         if \<not> includes_str stdout ''Apple M'' then [''sysctl -n machdep.cpu.brand_string'']
         else (case exec h ''sysctl -n hw.memsize'' of
                 Inl e \<Rightarrow> [''sysctl -n machdep.cpu.brand_string'', ''sysctl -n hw.memsize'']
               | Inr memInfo \<Rightarrow>
                   [''sysctl -n machdep.cpu.brand_string'', ''sysctl -n hw.memsize'',
                    ''vm_stat'', cores_command]))"
  by (simp add: getMpsInfo_def execAsync_def Let_def split: sum.splits prod.splits)

lemma GET_try_snd:
  "snd (GET_try h) =
    (if snd (checkNvidiaSmi h (platform h = ''win32''))
     then (case exec h query_command of
             Inl e \<Rightarrow> Inl e
           | Inr out \<Rightarrow>
               Inr \<lparr> hasNvidiaSmi = True, hasMps = (snd (mps_step h) \<noteq> None),
                     snap_platform = platform h,
                     gpus = map tag_cuda (map parse_line (split (trim out) [CHR 0x0A]))
                            @ (case snd (mps_step h) of None \<Rightarrow> [] | Some m \<Rightarrow> [m]),
                     error = None \<rparr>)
     else Inr \<lparr> hasNvidiaSmi = False, hasMps = (snd (mps_step h) \<noteq> None),
                snap_platform = platform h,
                gpus = (case snd (mps_step h) of None \<Rightarrow> [] | Some m \<Rightarrow> [m]),
                error = None \<rparr>)"
  by (cases "getMpsInfo h")
     (simp add: GET_try_def getGpuStats_def execAsync_def mps_step_def tag_cuda_def Let_def
           split: sum.splits prod.splits option.splits)

lemma GET_try_fst:
  "fst (GET_try h) =
    (if snd (checkNvidiaSmi h (platform h = ''win32''))
     then (case exec h query_command of
             Inl e \<Rightarrow> [probe_command (platform h = ''win32''), query_command]
           | Inr out \<Rightarrow>
               [probe_command (platform h = ''win32''), query_command] @ fst (mps_step h))
     else probe_command (platform h = ''win32'') # fst (mps_step h))"
  using checkNvidiaSmi_fst [of h "platform h = ''win32''"]
  by (cases "getMpsInfo h"; cases "checkNvidiaSmi h (platform h = ''win32'')")
     (simp add: GET_try_def getGpuStats_def execAsync_def mps_step_def Let_def
           split: sum.splits prod.splits option.splits)

lemma GET_snd:
  "snd (GET h) =
    (case snd (GET_try h) of
       Inr s \<Rightarrow> \<lparr> body = s, status = 200 \<rparr>
     | Inl e \<Rightarrow> \<lparr> body = \<lparr> hasNvidiaSmi = False, hasMps = False,
                            snap_platform = platform h, gpus = [],
                            error = Some (''Failed to fetch GPU stats: '' @ message e) \<rparr>,
                  status = 500 \<rparr>)"
  by (cases "GET_try h") (simp add: GET_def split: sum.splits)

lemma GET_fst: "fst (GET h) = fst (GET_try h)"
  by (cases "GET_try h") (simp add: GET_def split: sum.splits)

subsection \<open>Parsing a line of the query output\<close>

lemma non_numeric_parseInt: "non_numeric f \<Longrightarrow> parseInt (ToString f) = NaN"
  by (cases "trimStart (ToString f)")
     (auto simp add: non_numeric_def parseInt_def is_digit_def Let_def)

lemma non_numeric_parseFloat: "non_numeric f \<Longrightarrow> parseFloat (ToString f) = NaN"
  by (cases "trimStart (ToString f)")
     (auto simp add: non_numeric_def parseFloat_def is_digit_def Let_def)

lemma parse_line_int_fields:
  "index (parse_line l) = Num (parseInt (ToString (nth_opt (line_items l) 0)))"
  "temperature (parse_line l) = Num (parseInt (ToString (nth_opt (line_items l) 3)))"
  "util_gpu (utilization (parse_line l)) = Num (parseInt (ToString (nth_opt (line_items l) 4)))"
  "util_memory (utilization (parse_line l)) = Num (parseInt (ToString (nth_opt (line_items l) 5)))"
  "mem_total (memory (parse_line l)) = Num (parseInt (ToString (nth_opt (line_items l) 6)))"
  "mem_free (memory (parse_line l)) = Num (parseInt (ToString (nth_opt (line_items l) 7)))"
  "mem_used (memory (parse_line l)) = Num (parseInt (ToString (nth_opt (line_items l) 8)))"
  "clocks_graphics (clocks (parse_line l)) = Num (parseInt (ToString (nth_opt (line_items l) 11)))"
  "clocks_memory (clocks (parse_line l)) = Num (parseInt (ToString (nth_opt (line_items l) 12)))"
  by (simp_all add: parse_line_def line_items_def Let_def)

lemma parse_line_float_fields:
  "power_draw (gpu_power (parse_line l)) = Num (parseFloat (ToString (nth_opt (line_items l) 9)))"
  "power_limit (gpu_power (parse_line l)) = Num (parseFloat (ToString (nth_opt (line_items l) 10)))"
  by (simp_all add: parse_line_def line_items_def Let_def)

lemma parse_line_fan:
  "fan_speed (fan (parse_line l)) =
     Num (num_or (parseInt (ToString (nth_opt (line_items l) 13))) (Fin 0))"
  by (simp add: parse_line_def line_items_def Let_def)

lemma parseInt_empty: "parseInt [] = NaN"
  by (simp add: parseInt_def trimStart_def)

lemma parseInt_undefined: "parseInt ''undefined'' = NaN"
  by (simp add: parseInt_def trimStart_def is_ws_def is_digit_def)

subsection \<open>C7: an empty fan-speed field\<close>

text \<open>
  Claim C7. If the fan-speed field of a line of the query output is empty (the fourteenth
  field, once trimmed, is the empty string, or the line has no fourteenth field), then
  \<open>fan.speed\<close> of the record is exactly the number \<open>0\<close>, not the \<open>'N/A'\<close> marker.
\<close>

theorem fan_speed_empty_is_zero:
  assumes "nth_opt (line_items line) 13 = Some [] \<or> nth_opt (line_items line) 13 = None"
  shows "fan_speed (fan (parse_line line)) = Num (Fin 0)
         \<and> fan_speed (fan (parse_line line)) \<noteq> unknown"
  using assms
  by (auto simp add: parse_line_fan parseInt_empty parseInt_undefined num_or_def unknown_def)

lemma items_empty_fan:
  "line_items ''0, Test GPU, 525.60, 45, 10, 5, 8192, 6000, 2192, 50.5, 150.0, 1500, 7000, '' =
     [''0'', ''Test GPU'', ''525.60'', ''45'', ''10'', ''5'', ''8192'', ''6000'', ''2192'',
      ''50.5'', ''150.0'', ''1500'', ''7000'', '''']"
  by (simp add: line_items_def split_def trim_def is_ws_def)

theorem fan_speed_empty_is_zero_witness:
  "nth_opt (line_items ''0, Test GPU, 525.60, 45, 10, 5, 8192, 6000, 2192, 50.5, 150.0, 1500, 7000, '') 13 = Some []
   \<and> fan_speed (fan (parse_line ''0, Test GPU, 525.60, 45, 10, 5, 8192, 6000, 2192, 50.5, 150.0, 1500, 7000, '')) = Num (Fin 0)"
proof -
  have h: "nth_opt (line_items ''0, Test GPU, 525.60, 45, 10, 5, 8192, 6000, 2192, 50.5, 150.0, 1500, 7000, '') 13 = Some []"
    unfolding items_empty_fan by (simp add: eval_nat_numeral)
  from fan_speed_empty_is_zero [of "''0, Test GPU, 525.60, 45, 10, 5, 8192, 6000, 2192, 50.5, 150.0, 1500, 7000, ''"] h
  show ?thesis by blast
qed


subsection \<open>The example host with an Apple chip\<close>

lemma apple_host_exec:
  "platform apple_host = ''darwin''"
  "exec apple_host ''which nvidia-smi'' = Inl (Error ''Command failed: which nvidia-smi'')"
  "exec apple_host ''sysctl -n machdep.cpu.brand_string'' = Inr ''Apple M2 Pro\<newline>''"
  "exec apple_host ''sysctl -n hw.memsize'' = Inr ''17179869184\<newline>''"
  "exec apple_host ''vm_stat'' = Inr sample_vm_stat"
  "exec apple_host cores_command = Inr ''      Total Number of Cores: 19\<newline>''"
  by (simp_all add: apple_host_def host_of_def cores_command_def)

lemma includes_apple: "includes_str ''Apple M2 Pro\<newline>'' ''Apple M''"
  by simp

lemma memsize_16GiB:
  "Math_round (num_div (parseInt (trim ''17179869184\<newline>'')) (Fin (1024 * 1024 * 1024))) = Fin 16"
  by (simp add: js_eval floor_eq_iff)

lemma sample_vm_stat_pages:
  "pages ''Pages active:'' sample_vm_stat = Fin 200000"
  "pages ''Pages wired down:'' sample_vm_stat = Fin 0"
  "pages ''Pages inactive:'' sample_vm_stat = Fin 190000"
  "pages ''Pages free:'' sample_vm_stat = Fin 12345"
  by (simp_all add: pages_def sample_vm_stat_def match_here_def capture_after_def js_eval)

lemma sample_vm_stat_memory:
  "vm_stat_memory (Inr sample_vm_stat) = (Num (Fin 1523), Num (Fin 48))"
  by (simp add: vm_stat_memory_def sample_vm_stat_pages pageSize_def floor_eq_iff)

lemma sample_cores: "gpu_cores (Inr ''      Total Number of Cores: 19\<newline>'') = Some (Num (Fin 19))"
  by (simp add: gpu_cores_def js_eval)

lemma getMpsInfo_apple_host:
  "snd (getMpsInfo apple_host) =
     Some (mps_record ''Apple M2 Pro\<newline>'' (Fin 16) (Num (Fin 1523)) (Num (Fin 48))
             (Some (Num (Fin 19))))"
  unfolding getMpsInfo_snd apple_host_exec
  by (simp only: includes_apple memsize_16GiB sample_vm_stat_memory sample_cores
        sum.case if_False not_True_eq_False fst_conv snd_conv)

subsection \<open>C3: the sample line\<close>

lemma items_sample:
  "line_items ''0, Test GPU, 525.60, 45, 10, 5, 8192, 6000, 2192, 50.5, 150.0, 1500, 7000, 30'' =
     [''0'', ''Test GPU'', ''525.60'', ''45'', ''10'', ''5'', ''8192'', ''6000'', ''2192'',
      ''50.5'', ''150.0'', ''1500'', ''7000'', ''30'']"
  by (simp add: line_items_def split_def trim_def is_ws_def)

lemma items_fractions:
  "line_items ''1, Test GPU, 525.60, 45.7, 10.9, 5.5, 8192.5, 6000.5, 2192.5, 50.5, 150.25, 1500.5, 7000.5, 30.5'' =
     [''1'', ''Test GPU'', ''525.60'', ''45.7'', ''10.9'', ''5.5'', ''8192.5'', ''6000.5'',
      ''2192.5'', ''50.5'', ''150.25'', ''1500.5'', ''7000.5'', ''30.5'']"
  by (simp add: line_items_def split_def trim_def is_ws_def)

text \<open>
  Claim C3. Parsing the line
  \<open>0, Test GPU, 525.60, 45, 10, 5, 8192, 6000, 2192, 50.5, 150.0, 1500, 7000, 30\<close>
  gives index 0, name \<open>Test GPU\<close>, driver version \<open>525.60\<close>, temperature 45,
  utilization 10 and 5, memory 8192, 6000 and 2192, power 50.5 and 150, clocks 1500 and
  7000, fan speed 30. All numeric fields are read as integers, except the two power
  fields, which are read as decimal fractions: on a line with a fraction in every numeric
  column, every field but \<open>power.draw\<close> and \<open>power.limit\<close> loses the fraction.
\<close>

theorem parse_sample_line:
  "parse_line ''0, Test GPU, 525.60, 45, 10, 5, 8192, 6000, 2192, 50.5, 150.0, 1500, 7000, 30'' =
     \<lparr> index = Num (Fin 0), name = Str ''Test GPU'', driverVersion = Some (Str ''525.60''),
       temperature = Num (Fin 45),
       utilization = \<lparr> util_gpu = Num (Fin 10), util_memory = Num (Fin 5) \<rparr>,
       memory = \<lparr> mem_total = Num (Fin 8192), mem_free = Num (Fin 6000),
                  mem_used = Num (Fin 2192) \<rparr>,
       gpu_power = \<lparr> power_draw = Num (Fin (101 / 2)), power_limit = Num (Fin 150) \<rparr>,
       clocks = \<lparr> clocks_graphics = Num (Fin 1500), clocks_memory = Num (Fin 7000) \<rparr>,
       fan = \<lparr> fan_speed = Num (Fin 30) \<rparr>,
       gpu_type = None, model = None, cores = None \<rparr>
   \<and> parse_line ''1, Test GPU, 525.60, 45.7, 10.9, 5.5, 8192.5, 6000.5, 2192.5, 50.5, 150.25, 1500.5, 7000.5, 30.5'' =
     \<lparr> index = Num (Fin 1), name = Str ''Test GPU'', driverVersion = Some (Str ''525.60''),
       temperature = Num (Fin 45),
       utilization = \<lparr> util_gpu = Num (Fin 10), util_memory = Num (Fin 5) \<rparr>,
       memory = \<lparr> mem_total = Num (Fin 8192), mem_free = Num (Fin 6000),
                  mem_used = Num (Fin 2192) \<rparr>,
       gpu_power = \<lparr> power_draw = Num (Fin (101 / 2)), power_limit = Num (Fin (601 / 4)) \<rparr>,
       clocks = \<lparr> clocks_graphics = Num (Fin 1500), clocks_memory = Num (Fin 7000) \<rparr>,
       fan = \<lparr> fan_speed = Num (Fin 30) \<rparr>,
       gpu_type = None, model = None, cores = None \<rparr>"
proof
  show "parse_line ''0, Test GPU, 525.60, 45, 10, 5, 8192, 6000, 2192, 50.5, 150.0, 1500, 7000, 30'' =
     \<lparr> index = Num (Fin 0), name = Str ''Test GPU'', driverVersion = Some (Str ''525.60''),
       temperature = Num (Fin 45),
       utilization = \<lparr> util_gpu = Num (Fin 10), util_memory = Num (Fin 5) \<rparr>,
       memory = \<lparr> mem_total = Num (Fin 8192), mem_free = Num (Fin 6000),
                  mem_used = Num (Fin 2192) \<rparr>,
       gpu_power = \<lparr> power_draw = Num (Fin (101 / 2)), power_limit = Num (Fin 150) \<rparr>,
       clocks = \<lparr> clocks_graphics = Num (Fin 1500), clocks_memory = Num (Fin 7000) \<rparr>,
       fan = \<lparr> fan_speed = Num (Fin 30) \<rparr>,
       gpu_type = None, model = None, cores = None \<rparr>"
    unfolding parse_line_def line_items_def [symmetric] items_sample
    by (simp add: js_eval eval_nat_numeral)
  show "parse_line ''1, Test GPU, 525.60, 45.7, 10.9, 5.5, 8192.5, 6000.5, 2192.5, 50.5, 150.25, 1500.5, 7000.5, 30.5'' =
     \<lparr> index = Num (Fin 1), name = Str ''Test GPU'', driverVersion = Some (Str ''525.60''),
       temperature = Num (Fin 45),
       utilization = \<lparr> util_gpu = Num (Fin 10), util_memory = Num (Fin 5) \<rparr>,
       memory = \<lparr> mem_total = Num (Fin 8192), mem_free = Num (Fin 6000),
                  mem_used = Num (Fin 2192) \<rparr>,
       gpu_power = \<lparr> power_draw = Num (Fin (101 / 2)), power_limit = Num (Fin (601 / 4)) \<rparr>,
       clocks = \<lparr> clocks_graphics = Num (Fin 1500), clocks_memory = Num (Fin 7000) \<rparr>,
       fan = \<lparr> fan_speed = Num (Fin 30) \<rparr>,
       gpu_type = None, model = None, cores = None \<rparr>"
    unfolding parse_line_def line_items_def [symmetric] items_fractions
    by (simp add: js_eval eval_nat_numeral)
qed

subsection \<open>A line with columns that hold no number\<close>

lemma items_not_available:
  "line_items ''0, Test GPU, 525.60, [N/A], 10, 5, 8192, 6000, 2192, [N/A], 150.0, 1500, 7000, [N/A]'' =
     [''0'', ''Test GPU'', ''525.60'', ''[N/A]'', ''10'', ''5'', ''8192'', ''6000'', ''2192'',
      ''[N/A]'', ''150.0'', ''1500'', ''7000'', ''[N/A]'']"
  by (simp add: line_items_def split_def trim_def is_ws_def)

lemma non_numeric_not_available: "non_numeric (Some ''[N/A]'')"
  by (simp add: non_numeric_def trimStart_def is_ws_def is_digit_def)

subsection \<open>The steps of the handler\<close>

lemma getMpsInfo_type: "snd (getMpsInfo h) = Some m \<Longrightarrow> gpu_type m = Some ''mps''"
  by (auto simp add: getMpsInfo_snd mps_record_def split: sum.splits if_splits)

lemma mps_step_type: "snd (mps_step h) = Some m \<Longrightarrow> gpu_type m = Some ''mps''"
  by (auto simp add: mps_step_def getMpsInfo_type split: if_splits)

lemma mps_step_not_darwin: "platform h \<noteq> ''darwin'' \<Longrightarrow> mps_step h = ([], None)"
  by (simp add: mps_step_def)

lemma getMpsInfo_trace:
  "set (fst (getMpsInfo h)) \<subseteq>
     {''sysctl -n machdep.cpu.brand_string'', ''sysctl -n hw.memsize'', ''vm_stat'', cores_command}"
  by (auto simp add: getMpsInfo_fst split: sum.splits if_splits)

lemma query_command_not_mps:
  "query_command \<notin>
     {''sysctl -n machdep.cpu.brand_string'', ''sysctl -n hw.memsize'', ''vm_stat'', cores_command}"
  by (simp add: query_command_def cores_command_def)

lemma query_command_not_probe: "query_command \<noteq> probe_command w"
  by (simp add: query_command_def probe_command_def)

lemma mps_step_trace: "query_command \<notin> set (fst (mps_step h))"
  using getMpsInfo_trace [of h] query_command_not_mps
  by (auto simp add: mps_step_def)

lemma tag_cuda_type: "gpu_type (tag_cuda g) = Some ''cuda''"
  by (simp add: tag_cuda_def)

lemma GET_try_raises_iff:
  "snd (GET_try h) = Inl e \<longleftrightarrow>
     snd (checkNvidiaSmi h (platform h = ''win32'')) \<and> exec h query_command = Inl e"
  by (auto simp add: GET_try_snd split: sum.splits if_splits)

subsection \<open>C1: the handler never raises\<close>

text \<open>
  Claim C1. \<open>GET\<close> never raises to its caller: in the model it is a total function
  into responses, and the only thing that throws inside its \<open>try\<close> block is the query
  command being rejected after a probe that succeeded. Whenever the block throws, the
  response is the snapshot with \<open>hasNvidiaSmi = false\<close>, \<open>hasMps = false\<close>,
  \<open>gpus = []\<close>, an \<open>error\<close> string that is not empty, and status 500.
\<close>

theorem GET_catches_failure:
  assumes "snd (GET_try h) = Inl e"
  shows "snd (checkNvidiaSmi h (platform h = ''win32''))
         \<and> exec h query_command = Inl e
         \<and> snd (GET h) =
             \<lparr> body = \<lparr> hasNvidiaSmi = False, hasMps = False, snap_platform = platform h,
                        gpus = [],
                        error = Some (''Failed to fetch GPU stats: '' @ message e) \<rparr>,
               status = 500 \<rparr>
         \<and> ''Failed to fetch GPU stats: '' @ message e \<noteq> []"
  using assms by (simp add: GET_snd GET_try_raises_iff [symmetric])

lemma linux_query_fails_exec:
  "platform linux_query_fails_host = ''linux''"
  "exec linux_query_fails_host ''which nvidia-smi'' = Inr ''/usr/bin/nvidia-smi\<newline>''"
  "exec linux_query_fails_host query_command = Inl (Error (''Command failed: '' @ query_command))"
  by (simp_all add: linux_query_fails_host_def host_of_def query_command_def)

lemma linux_query_fails_raises:
  "snd (GET_try linux_query_fails_host) = Inl (Error (''Command failed: '' @ query_command))"
  by (simp add: GET_try_raises_iff checkNvidiaSmi_snd probe_command_def linux_query_fails_exec)

theorem GET_catches_failure_witness:
  "snd (GET_try linux_query_fails_host) = Inl (Error (''Command failed: '' @ query_command))
   \<and> snd (GET linux_query_fails_host) =
        \<lparr> body = \<lparr> hasNvidiaSmi = False, hasMps = False, snap_platform = ''linux'', gpus = [],
                   error = Some (''Failed to fetch GPU stats: Command failed: '' @ query_command) \<rparr>,
          status = 500 \<rparr>"
  using GET_catches_failure [OF linux_query_fails_raises] linux_query_fails_raises
  by (simp add: linux_query_fails_exec)

subsection \<open>C4: a probe that fails\<close>

text \<open>
  Claim C4. If the capability probe of \<open>checkNvidiaSmi\<close> fails, then \<open>hasNvidiaSmi\<close>
  is false in the snapshot, no record of \<open>gpus\<close> has type \<open>cuda\<close>, and the query
  command is not among the commands run. The failure is not reported as an error.
\<close>

theorem probe_failure_no_cuda:
  assumes "\<not> snd (checkNvidiaSmi h (platform h = ''win32''))"
  shows "hasNvidiaSmi (body (snd (GET h))) = False
         \<and> (\<forall>g \<in> set (gpus (body (snd (GET h)))). gpu_type g \<noteq> Some ''cuda'')
         \<and> query_command \<notin> set (fst (GET h))
         \<and> error (body (snd (GET h))) = None
         \<and> status (snd (GET h)) = 200"
proof -
  from assms have s: "snd (GET_try h) =
      Inr \<lparr> hasNvidiaSmi = False, hasMps = (snd (mps_step h) \<noteq> None),
            snap_platform = platform h,
            gpus = (case snd (mps_step h) of None \<Rightarrow> [] | Some m \<Rightarrow> [m]),
            error = None \<rparr>"
    by (simp add: GET_try_snd)
  from assms have t: "fst (GET h) = probe_command (platform h = ''win32'') # fst (mps_step h)"
    by (simp add: GET_fst GET_try_fst)
  have "\<forall>g \<in> set (gpus (body (snd (GET h)))). gpu_type g \<noteq> Some ''cuda''"
    by (auto simp add: GET_snd s dest!: mps_step_type [OF sym] split: option.splits)
  moreover have "query_command \<notin> set (fst (GET h))"
    using mps_step_trace [of h] query_command_not_probe by (simp add: t)
  ultimately show ?thesis by (simp add: GET_snd s)
qed

lemma apple_probe_fails: "\<not> snd (checkNvidiaSmi apple_host (platform apple_host = ''win32''))"
  by (simp add: checkNvidiaSmi_snd probe_command_def apple_host_exec)

lemma GET_apple_host:
  "snd (GET apple_host) =
     \<lparr> body = \<lparr> hasNvidiaSmi = False, hasMps = True, snap_platform = ''darwin'',
                gpus = [mps_record ''Apple M2 Pro\<newline>'' (Fin 16) (Num (Fin 1523)) (Num (Fin 48))
                          (Some (Num (Fin 19)))],
                error = None \<rparr>,
       status = 200 \<rparr>"
  using apple_probe_fails
  by (simp add: GET_snd GET_try_snd mps_step_def getMpsInfo_apple_host apple_host_exec)

lemma GET_apple_host_trace:
  "fst (GET apple_host) =
     [''which nvidia-smi'', ''sysctl -n machdep.cpu.brand_string'', ''sysctl -n hw.memsize'',
      ''vm_stat'', cores_command]"
  using apple_probe_fails
  by (simp add: GET_fst GET_try_fst mps_step_def getMpsInfo_fst apple_host_exec includes_apple
        probe_command_def)

theorem probe_failure_no_cuda_witness:
  "snd (checkNvidiaSmi apple_host (platform apple_host = ''win32'')) = False
   \<and> hasNvidiaSmi (body (snd (GET apple_host))) = False
   \<and> gpus (body (snd (GET apple_host))) =
        [mps_record ''Apple M2 Pro\<newline>'' (Fin 16) (Num (Fin 1523)) (Num (Fin 48))
           (Some (Num (Fin 19)))]
   \<and> gpu_type (mps_record ''Apple M2 Pro\<newline>'' (Fin 16) (Num (Fin 1523)) (Num (Fin 48))
        (Some (Num (Fin 19)))) = Some ''mps''
   \<and> fst (GET apple_host) =
        [''which nvidia-smi'', ''sysctl -n machdep.cpu.brand_string'', ''sysctl -n hw.memsize'',
         ''vm_stat'', cores_command]
   \<and> (query_command \<in> set (fst (GET apple_host))) = False"
  using probe_failure_no_cuda [OF apple_probe_fails] apple_probe_fails
  by (simp add: GET_apple_host GET_apple_host_trace mps_record_def)


subsection \<open>C5: platforms other than macOS\<close>

text \<open>
  Claim C5. On every platform other than \<open>darwin\<close> the snapshot has \<open>hasMps = false\<close>
  and no record of \<open>gpus\<close> has type \<open>mps\<close>, whatever the commands of the host answer.
\<close>

theorem no_mps_off_darwin:
  assumes "platform h \<noteq> ''darwin''"
  shows "hasMps (body (snd (GET h))) = False
         \<and> (\<forall>g \<in> set (gpus (body (snd (GET h)))). gpu_type g \<noteq> Some ''mps'')"
  using assms
  by (auto simp add: GET_snd GET_try_snd mps_step_not_darwin tag_cuda_type
        split: sum.splits if_splits)

lemma linux_cuda_exec:
  "platform linux_cuda_host = ''linux''"
  "exec linux_cuda_host ''which nvidia-smi'' = Inr ''/usr/bin/nvidia-smi\<newline>''"
  "exec linux_cuda_host query_command = Inr (sample_line @ ''\<newline>'')"
  "exec linux_cuda_host ''sysctl -n machdep.cpu.brand_string'' = Inr ''Apple M2 Pro\<newline>''"
  by (simp_all add: linux_cuda_host_def host_of_def query_command_def)

lemma sample_output_lines: "split (trim (sample_line @ ''\<newline>'')) [CHR 0x0A] = [sample_line]"
  by (simp add: sample_line_def split_def trim_def is_ws_def)

lemma GET_linux_cuda_host:
  "snd (GET linux_cuda_host) =
     \<lparr> body = \<lparr> hasNvidiaSmi = True, hasMps = False, snap_platform = ''linux'',
                gpus = [tag_cuda (parse_line sample_line)], error = None \<rparr>,
       status = 200 \<rparr>"
  by (simp add: GET_snd GET_try_snd checkNvidiaSmi_snd probe_command_def linux_cuda_exec
        mps_step_def sample_output_lines)

theorem no_mps_off_darwin_witness:
  "(platform linux_cuda_host = ''darwin'') = False
   \<and> exec linux_cuda_host ''sysctl -n machdep.cpu.brand_string'' = Inr ''Apple M2 Pro\<newline>''
   \<and> hasMps (body (snd (GET linux_cuda_host))) = False
   \<and> gpus (body (snd (GET linux_cuda_host))) = [tag_cuda (parse_line sample_line)]
   \<and> (gpu_type (tag_cuda (parse_line sample_line)) = Some ''mps'') = False"
proof -
  have p: "platform linux_cuda_host \<noteq> ''darwin''"
    by (simp add: linux_cuda_exec)
  from no_mps_off_darwin [OF p] show ?thesis
    by (simp add: GET_linux_cuda_host linux_cuda_exec)
qed

subsection \<open>C10: the flag and the record\<close>

text \<open>
  Claim C10. In every response without an \<open>error\<close>, \<open>hasMps\<close> is true if and only if
  \<open>gpus\<close> holds a record of type \<open>mps\<close>.
\<close>

theorem hasMps_iff_mps_record:
  assumes "error (body (snd (GET h))) = None"
  shows "hasMps (body (snd (GET h))) \<longleftrightarrow>
           (\<exists>g \<in> set (gpus (body (snd (GET h)))). gpu_type g = Some ''mps'')"
proof (cases "snd (GET_try h)")
  case (Inl e)
  with assms show ?thesis by (simp add: GET_snd)
next
  case (Inr s)
  then show ?thesis
    by (cases "snd (mps_step h)")
       (auto simp add: GET_snd GET_try_snd tag_cuda_type mps_step_type
             split: sum.splits if_splits)
qed

theorem hasMps_iff_mps_record_witness:
  "error (body (snd (GET apple_host))) = None
   \<and> hasMps (body (snd (GET apple_host))) = True
   \<and> gpus (body (snd (GET apple_host))) =
        [mps_record ''Apple M2 Pro\<newline>'' (Fin 16) (Num (Fin 1523)) (Num (Fin 48))
           (Some (Num (Fin 19)))]
   \<and> gpu_type (mps_record ''Apple M2 Pro\<newline>'' (Fin 16) (Num (Fin 1523)) (Num (Fin 48))
        (Some (Num (Fin 19)))) = Some ''mps''"
proof -
  have e: "error (body (snd (GET apple_host))) = None"
    by (simp add: GET_apple_host)
  from hasMps_iff_mps_record [OF e] show ?thesis
    by (simp add: GET_apple_host)
qed

subsection \<open>Fields of the two kinds of record\<close>

lemma getMpsInfo_unknown_fields:
  assumes "snd (getMpsInfo h) = Some r"
  shows "temperature r = unknown" "util_gpu (utilization r) = unknown"
    "power_draw (gpu_power r) = unknown" "power_limit (gpu_power r) = unknown"
    "clocks_graphics (clocks r) = unknown" "clocks_memory (clocks r) = unknown"
    "fan_speed (fan r) = unknown"
  using assms
  by (auto simp add: getMpsInfo_snd mps_record_def unknown_def split: sum.splits if_splits)

lemma items_unavailable:
  "line_items unavailable_line =
     [''[N/A]'', ''Test GPU'', ''525.60'', ''[N/A]'', ''[N/A]'', ''[N/A]'', ''[N/A]'', ''[N/A]'',
      ''[N/A]'', ''[N/A]'', ''[N/A]'', ''[N/A]'', ''[N/A]'', ''[N/A]'']"
  by (simp add: unavailable_line_def line_items_def split_def trim_def is_ws_def)

subsection \<open>C6: the brand string\<close>

lemma trim_decompose:
  "\<exists>a b. s = a @ trim s @ b \<and> (\<forall>c \<in> set a. is_ws c) \<and> (\<forall>c \<in> set b. is_ws c)"
proof -
  let ?t = "dropWhile is_ws s"
  have 1: "s = takeWhile is_ws s @ ?t" by simp
  have "rev (dropWhile is_ws (rev ?t)) @ rev (takeWhile is_ws (rev ?t)) = ?t"
    by (simp only: rev_append [symmetric] takeWhile_dropWhile_id rev_rev_ident)
  then have 2: "?t = trim s @ rev (takeWhile is_ws (rev ?t))"
    by (simp add: trim_def)
  have 3: "\<forall>c \<in> set (takeWhile is_ws s). is_ws c"
    by (auto dest: set_takeWhileD)
  have 4: "\<forall>c \<in> set (rev (takeWhile is_ws (rev ?t))). is_ws c"
    by (auto dest: set_takeWhileD)
  from 1 2 have "s = takeWhile is_ws s @ trim s @ rev (takeWhile is_ws (rev ?t))"
    by simp
  with 3 4 show ?thesis by blast
qed

lemma includes_str_prefix: "take (length sub) s = sub \<Longrightarrow> includes_str s sub"
  by (cases s) auto

lemma includes_str_append: "includes_str s sub \<Longrightarrow> includes_str (a @ s) sub"
  by (induction a) auto

lemma includes_str_hd: "includes_str s sub \<Longrightarrow> sub \<noteq> [] \<Longrightarrow> hd sub \<in> set s"
proof (induction s)
  case Nil
  then show ?case by simp
next
  case (Cons c cs)
  then show ?case by (cases sub) auto
qed

lemma brand_apple:
  assumes "trim stdout = ''Apple M2 Pro''"
  shows "includes_str stdout ''Apple M''"
proof -
  from trim_decompose [of stdout] assms obtain a b where "stdout = a @ ''Apple M2 Pro'' @ b"
    by auto
  moreover have "includes_str (''Apple M2 Pro'' @ b) ''Apple M''"
    by (rule includes_str_prefix) simp
  ultimately show ?thesis by (simp only: includes_str_append)
qed

lemma brand_intel:
  assumes "trim stdout = ''Intel Core i9''"
  shows "\<not> includes_str stdout ''Apple M''"
proof
  assume "includes_str stdout ''Apple M''"
  then have "CHR ''A'' \<in> set stdout"
    using includes_str_hd [of stdout "''Apple M''"] by simp
  moreover from trim_decompose [of stdout] assms obtain a b
    where "stdout = a @ ''Intel Core i9'' @ b" "\<forall>c \<in> set a. is_ws c" "\<forall>c \<in> set b. is_ws c"
    by auto
  moreover have "\<not> is_ws CHR ''A''" by (simp add: is_ws_def)
  ultimately show False by auto
qed

lemma cuda_step_throws_iff: "cuda_step_throws h \<longleftrightarrow> isl (snd (GET_try h))"
  by (auto simp add: cuda_step_throws_def GET_try_snd split: sum.splits)

lemma GET_no_throw:
  assumes "\<not> cuda_step_throws h"
  shows "hasMps (body (snd (GET h))) = (snd (mps_step h) \<noteq> None)"
    "filter is_mps (gpus (body (snd (GET h)))) =
       (case snd (mps_step h) of None \<Rightarrow> [] | Some m \<Rightarrow> [m])"
    "error (body (snd (GET h))) = None"
    "status (snd (GET h)) = 200"
  using assms
  by (auto simp add: cuda_step_throws_def GET_snd GET_try_snd is_mps_def tag_cuda_type
        filter_empty_conv o_def dest: mps_step_type split: sum.splits option.splits)

text \<open>
  Claim C6. On \<open>darwin\<close>, the brand string decides the flag: with nothing else
  failing (the second step of \<open>GET\<close> does not throw, the brand query answers), the
  brand string \<open>Apple M2 Pro\<close> gives \<open>hasMps = true\<close> and exactly one record of
  type \<open>mps\<close>, the query of \<open>hw.memsize\<close> that follows answering too; the brand
  string \<open>Intel Core i9\<close> gives \<open>hasMps = false\<close>, no record of type \<open>mps\<close> and no
  error.
\<close>

theorem mps_detection_by_brand:
  assumes "platform h = ''darwin''"
    and "\<not> cuda_step_throws h"
    and "exec h ''sysctl -n machdep.cpu.brand_string'' = Inr stdout"
  shows "(trim stdout = ''Apple M2 Pro'' \<and> \<not> isl (exec h ''sysctl -n hw.memsize'') \<longrightarrow>
            hasMps (body (snd (GET h))) = True
            \<and> length (filter is_mps (gpus (body (snd (GET h))))) = 1)
         \<and> (trim stdout = ''Intel Core i9'' \<longrightarrow>
            hasMps (body (snd (GET h))) = False
            \<and> filter is_mps (gpus (body (snd (GET h)))) = []
            \<and> error (body (snd (GET h))) = None
            \<and> status (snd (GET h)) = 200)"
proof (intro conjI impI)
  assume a: "trim stdout = ''Apple M2 Pro'' \<and> \<not> isl (exec h ''sysctl -n hw.memsize'')"
  then obtain memInfo where m: "exec h ''sysctl -n hw.memsize'' = Inr memInfo"
    by (cases "exec h ''sysctl -n hw.memsize''") auto
  from a have "includes_str stdout ''Apple M''" by (simp add: brand_apple)
  with assms m have "snd (mps_step h) \<noteq> None"
    by (simp add: mps_step_def getMpsInfo_snd)
  with assms(2) show "hasMps (body (snd (GET h))) = True"
    and "length (filter is_mps (gpus (body (snd (GET h))))) = 1"
    by (auto simp add: GET_no_throw)
next
  assume "trim stdout = ''Intel Core i9''"
  then have "\<not> includes_str stdout ''Apple M''" by (rule brand_intel)
  with assms have n: "snd (mps_step h) = None"
    by (simp add: mps_step_def getMpsInfo_snd)
  with assms(2) show "hasMps (body (snd (GET h))) = False"
    and "filter is_mps (gpus (body (snd (GET h)))) = []"
    and "error (body (snd (GET h))) = None"
    and "status (snd (GET h)) = 200"
    by (simp_all add: GET_no_throw)
qed


lemma trim_brands:
  "trim ''Apple M2 Pro\<newline>'' = ''Apple M2 Pro''"
  "trim ''Intel Core i9\<newline>'' = ''Intel Core i9''"
  by (simp_all add: trim_def is_ws_def)

lemma intel_mac_exec:
  "platform intel_mac_host = ''darwin''"
  "exec intel_mac_host ''which nvidia-smi'' = Inl (Error ''Command failed: which nvidia-smi'')"
  "exec intel_mac_host ''sysctl -n machdep.cpu.brand_string'' = Inr ''Intel Core i9\<newline>''"
  by (simp_all add: intel_mac_host_def host_of_def)

lemma intel_mac_no_throw: "\<not> cuda_step_throws intel_mac_host"
  by (simp add: cuda_step_throws_def checkNvidiaSmi_snd probe_command_def intel_mac_exec)

lemma apple_no_throw: "\<not> cuda_step_throws apple_host"
  by (simp add: cuda_step_throws_def checkNvidiaSmi_snd probe_command_def apple_host_exec)

theorem mps_detection_by_brand_witness:
  "platform apple_host = ''darwin''
   \<and> cuda_step_throws apple_host = False
   \<and> exec apple_host ''sysctl -n machdep.cpu.brand_string'' = Inr ''Apple M2 Pro\<newline>''
   \<and> trim ''Apple M2 Pro\<newline>'' = ''Apple M2 Pro''
   \<and> isl (exec apple_host ''sysctl -n hw.memsize'') = False
   \<and> hasMps (body (snd (GET apple_host))) = True
   \<and> length (filter is_mps (gpus (body (snd (GET apple_host))))) = 1
   \<and> platform intel_mac_host = ''darwin''
   \<and> cuda_step_throws intel_mac_host = False
   \<and> exec intel_mac_host ''sysctl -n machdep.cpu.brand_string'' = Inr ''Intel Core i9\<newline>''
   \<and> trim ''Intel Core i9\<newline>'' = ''Intel Core i9''
   \<and> hasMps (body (snd (GET intel_mac_host))) = False
   \<and> filter is_mps (gpus (body (snd (GET intel_mac_host)))) = []
   \<and> error (body (snd (GET intel_mac_host))) = None
   \<and> status (snd (GET intel_mac_host)) = 200"
  using mps_detection_by_brand [OF apple_host_exec(1) apple_no_throw apple_host_exec(3)]
    mps_detection_by_brand [OF intel_mac_exec(1) intel_mac_no_throw intel_mac_exec(3)]
  by (simp add: trim_brands apple_host_exec intel_mac_exec apple_no_throw intel_mac_no_throw)

subsection \<open>C8: the total memory of the integrated GPU\<close>

lemma getMpsInfo_total:
  assumes "snd (getMpsInfo h) = Some r" and "exec h ''sysctl -n hw.memsize'' = Inr memInfo"
  shows "mem_total (memory r) =
     Num (num_mul (Math_round (num_div (parseInt (trim memInfo)) (Fin (1024 * 1024 * 1024))))
            (Fin 1024))"
  using assms
  by (auto simp add: getMpsInfo_snd mps_record_def split: sum.splits if_splits)

lemma parseInt_16GiB: "parseInt ''17179869184'' = Fin (rat_of_int 17179869184)"
  by (simp add: js_eval)

lemma spec_memory_total_16GiB: "spec_memory_total 17179869184 = 16384"
  by (simp add: spec_memory_total_def round_def floor_eq_iff)

text \<open>
  Claim C8. The total memory of the \<open>mps\<close> record is the byte count read from
  \<open>hw.memsize\<close>, divided by \<open>2^30\<close> and rounded to whole gigabytes, times 1024; for
  17179869184 bytes it is 16384.
\<close>

theorem mps_total_memory:
  assumes "snd (getMpsInfo h) = Some r"
    and "exec h ''sysctl -n hw.memsize'' = Inr memInfo"
  shows "(parseInt (trim memInfo) = Fin (rat_of_int bytes) \<longrightarrow>
            mem_total (memory r) = Num (Fin (rat_of_int (spec_memory_total bytes))))
         \<and> (trim memInfo = ''17179869184'' \<longrightarrow> mem_total (memory r) = Num (Fin 16384))"
proof (intro conjI impI)
  assume "parseInt (trim memInfo) = Fin (rat_of_int bytes)"
  then show "mem_total (memory r) = Num (Fin (rat_of_int (spec_memory_total bytes)))"
    by (simp add: getMpsInfo_total [OF assms] spec_memory_total_def round_def)
next
  assume "trim memInfo = ''17179869184''"
  then have "parseInt (trim memInfo) = Fin (rat_of_int 17179869184)"
    by (simp only: parseInt_16GiB)
  then have "mem_total (memory r) = Num (Fin (rat_of_int (spec_memory_total 17179869184)))"
    by (simp add: getMpsInfo_total [OF assms] spec_memory_total_def round_def)
  then show "mem_total (memory r) = Num (Fin 16384)"
    by (simp only: spec_memory_total_16GiB) simp
qed

theorem mps_total_memory_witness:
  "snd (getMpsInfo apple_host) =
     Some (mps_record ''Apple M2 Pro\<newline>'' (Fin 16) (Num (Fin 1523)) (Num (Fin 48))
             (Some (Num (Fin 19))))
   \<and> exec apple_host ''sysctl -n hw.memsize'' = Inr ''17179869184\<newline>''
   \<and> trim ''17179869184\<newline>'' = ''17179869184''
   \<and> parseInt ''17179869184'' = Fin (rat_of_int 17179869184)
   \<and> spec_memory_total 17179869184 = 16384
   \<and> mem_total (memory (mps_record ''Apple M2 Pro\<newline>'' (Fin 16) (Num (Fin 1523))
        (Num (Fin 48)) (Some (Num (Fin 19))))) = Num (Fin 16384)"
proof -
  have t: "trim ''17179869184\<newline>'' = ''17179869184''"
    by (simp add: trim_def is_ws_def)
  from mps_total_memory [OF getMpsInfo_apple_host apple_host_exec(4), of 17179869184] t
  show ?thesis
    by (simp add: getMpsInfo_apple_host apple_host_exec parseInt_16GiB spec_memory_total_16GiB)
qed

subsection \<open>C9: \<open>vm_stat\<close> fails\<close>

lemma vm_stat_not_probe: "''vm_stat'' \<noteq> probe_command w" "''vm_stat'' \<noteq> query_command"
  by (simp_all add: probe_command_def query_command_def)

lemma vm_stat_in_GET_trace:
  assumes "''vm_stat'' \<in> set (fst (GET h))"
  shows "\<not> cuda_step_throws h" and "''vm_stat'' \<in> set (fst (mps_step h))"
  using assms vm_stat_not_probe
  by (auto simp add: GET_fst GET_try_fst cuda_step_throws_def split: sum.splits if_splits)

lemma vm_stat_in_mps_trace:
  assumes "''vm_stat'' \<in> set (fst (mps_step h))"
  shows "snd (mps_step h) =
     (case (exec h ''sysctl -n machdep.cpu.brand_string'', exec h ''sysctl -n hw.memsize'') of
        (Inr stdout, Inr memInfo) \<Rightarrow>
          Some (mps_record stdout
             (Math_round (num_div (parseInt (trim memInfo)) (Fin (1024 * 1024 * 1024))))
             (fst (vm_stat_memory (exec h ''vm_stat'')))
             (snd (vm_stat_memory (exec h ''vm_stat'')))
             (gpu_cores (exec h cores_command)))
      | _ \<Rightarrow> None)"
    and "snd (mps_step h) \<noteq> None"
  using assms
  by (auto simp add: mps_step_def getMpsInfo_fst getMpsInfo_snd split: sum.splits if_splits)

lemma pages_unmatched: "match_label label vmStat = None \<Longrightarrow> pages label vmStat = Fin 0"
  by (simp add: pages_def js_eval)

text \<open>
  Claim C9. If the \<open>vm_stat\<close> step runs and its command is rejected, the request does
  not fail and the \<open>mps\<close> record is still in \<open>gpus\<close>, with \<open>memory.used\<close> and
  \<open>memory.free\<close> set to the \<open>'N/A'\<close> marker. In an output of \<open>vm_stat\<close> a label
  that the pattern does not match counts as \<open>0\<close> pages.
\<close>

theorem vm_stat_failure_keeps_record:
  assumes "''vm_stat'' \<in> set (fst (GET h))" and "exec h ''vm_stat'' = Inl e"
  shows "status (snd (GET h)) = 200
         \<and> error (body (snd (GET h))) = None
         \<and> hasMps (body (snd (GET h))) = True
         \<and> (\<exists>r. filter is_mps (gpus (body (snd (GET h)))) = [r]
                \<and> mem_used (memory r) = unknown \<and> mem_free (memory r) = unknown)
         \<and> (match_label label vmStat = None \<longrightarrow> pages label vmStat = Fin 0)"
proof -
  note nt = vm_stat_in_GET_trace [OF assms(1)]
  from vm_stat_in_mps_trace [OF nt(2)] obtain r
    where r: "snd (mps_step h) = Some r" by auto
  with vm_stat_in_mps_trace(1) [OF nt(2)] assms(2)
  have "mem_used (memory r) = unknown \<and> mem_free (memory r) = unknown"
    by (auto simp add: mps_record_def vm_stat_memory_def unknown_def split: sum.splits)
  moreover have "filter is_mps (gpus (body (snd (GET h)))) = [r]"
    by (simp add: GET_no_throw [OF nt(1)] r)
  moreover have "hasMps (body (snd (GET h))) = True"
    by (simp add: GET_no_throw [OF nt(1)] r)
  ultimately show ?thesis
    by (simp add: GET_no_throw [OF nt(1)] pages_unmatched)
qed

lemma no_vm_stat_exec:
  "platform apple_host_no_vm_stat = ''darwin''"
  "exec apple_host_no_vm_stat ''which nvidia-smi'' = Inl (Error ''Command failed: which nvidia-smi'')"
  "exec apple_host_no_vm_stat ''sysctl -n machdep.cpu.brand_string'' = Inr ''Apple M2 Pro\<newline>''"
  "exec apple_host_no_vm_stat ''sysctl -n hw.memsize'' = Inr ''17179869184\<newline>''"
  "exec apple_host_no_vm_stat ''vm_stat'' = Inl (Error ''Command failed: vm_stat'')"
  "exec apple_host_no_vm_stat cores_command = Inl (Error (''Command failed: '' @ cores_command))"
  by (simp_all add: apple_host_no_vm_stat_def host_of_def cores_command_def)

lemma no_vm_stat_trace:
  "fst (GET apple_host_no_vm_stat) =
     [''which nvidia-smi'', ''sysctl -n machdep.cpu.brand_string'', ''sysctl -n hw.memsize'',
      ''vm_stat'', cores_command]"
  by (simp add: GET_fst GET_try_fst checkNvidiaSmi_snd probe_command_def mps_step_def
        getMpsInfo_fst no_vm_stat_exec includes_apple)

lemma memsize_16GiB_numeral:
  "Math_round (num_div (parseInt (trim ''17179869184\<newline>'')) (Fin 1073741824)) = Fin 16"
  using memsize_16GiB by simp

lemma mps_record_type: "is_mps (mps_record out gb u f c)"
  by (simp add: is_mps_def mps_record_def)

lemma GET_no_vm_stat:
  "snd (GET apple_host_no_vm_stat) =
     \<lparr> body = \<lparr> hasNvidiaSmi = False, hasMps = True, snap_platform = ''darwin'',
                gpus = [mps_record ''Apple M2 Pro\<newline>'' (Fin 16) (Str ''N/A'') (Str ''N/A'') None],
                error = None \<rparr>,
       status = 200 \<rparr>"
  by (simp add: GET_snd GET_try_snd checkNvidiaSmi_snd probe_command_def mps_step_def
        getMpsInfo_snd no_vm_stat_exec includes_apple memsize_16GiB_numeral vm_stat_memory_def
        gpu_cores_def)

lemma wired_unmatched: "match_label ''Pages wired down:'' sample_vm_stat = None"
  by (simp add: sample_vm_stat_def match_here_def capture_after_def)

theorem vm_stat_failure_keeps_record_witness:
  "(''vm_stat'' \<in> set (fst (GET apple_host_no_vm_stat))) = True
   \<and> exec apple_host_no_vm_stat ''vm_stat'' = Inl (Error ''Command failed: vm_stat'')
   \<and> status (snd (GET apple_host_no_vm_stat)) = 200
   \<and> hasMps (body (snd (GET apple_host_no_vm_stat))) = True
   \<and> filter is_mps (gpus (body (snd (GET apple_host_no_vm_stat)))) =
        [mps_record ''Apple M2 Pro\<newline>'' (Fin 16) (Str ''N/A'') (Str ''N/A'') None]
   \<and> mem_used (memory (mps_record ''Apple M2 Pro\<newline>'' (Fin 16) (Str ''N/A'') (Str ''N/A'')
        None)) = unknown
   \<and> mem_free (memory (mps_record ''Apple M2 Pro\<newline>'' (Fin 16) (Str ''N/A'') (Str ''N/A'')
        None)) = unknown
   \<and> match_label ''Pages wired down:'' sample_vm_stat = None
   \<and> pages ''Pages wired down:'' sample_vm_stat = Fin 0"
proof -
  have i: "''vm_stat'' \<in> set (fst (GET apple_host_no_vm_stat))"
    by (simp add: no_vm_stat_trace)
  have f: "filter is_mps (gpus (body (snd (GET apple_host_no_vm_stat)))) =
      [mps_record ''Apple M2 Pro\<newline>'' (Fin 16) (Str ''N/A'') (Str ''N/A'') None]"
    by (simp add: GET_no_vm_stat mps_record_type)
  from vm_stat_failure_keeps_record [OF i no_vm_stat_exec(5),
      of "''Pages wired down:''" sample_vm_stat] i
  show ?thesis
    by (auto simp add: f no_vm_stat_exec wired_unmatched)
qed


subsection \<open>C2: fields whose tool output holds no number\<close>

lemma blank_exec:
  "platform apple_host_blank = ''darwin''"
  "exec apple_host_blank ''which nvidia-smi'' = Inl (Error ''Command failed: which nvidia-smi'')"
  "exec apple_host_blank ''sysctl -n machdep.cpu.brand_string'' = Inr ''Apple M2 Pro\<newline>''"
  "exec apple_host_blank ''sysctl -n hw.memsize'' = Inr ''\<newline>''"
  "exec apple_host_blank ''vm_stat'' = Inr []"
  "exec apple_host_blank cores_command = Inr ''      Total Number of Cores: n/a\<newline>''"
  by (simp_all add: apple_host_blank_def host_of_def cores_command_def)

lemma blank_memsize:
  "Math_round (num_div (parseInt (trim ''\<newline>'')) (Fin (1024 * 1024 * 1024))) = NaN"
  by (simp add: js_eval)

lemma blank_vm_stat: "vm_stat_memory (Inr []) = (Num (Fin 0), Num (Fin 0))"
  by (simp add: vm_stat_memory_def pages_def match_here_def pageSize_def js_eval floor_eq_iff)

lemma non_numeric_blank: "non_numeric (Some [])" "non_numeric (Some ''n/a'')"
  by (simp_all add: non_numeric_def trimStart_def is_ws_def is_digit_def)

lemma blank_cores: "gpu_cores (Inr ''      Total Number of Cores: n/a\<newline>'') = Some (Num NaN)"
  using non_numeric_parseInt [OF non_numeric_blank(2)]
  by (simp add: gpu_cores_def split_def trim_def is_ws_def)

lemma getMpsInfo_blank: "snd (getMpsInfo apple_host_blank) = Some blank_record"
  unfolding getMpsInfo_snd blank_exec blank_record_def
  by (simp only: includes_apple blank_memsize blank_vm_stat blank_cores
        sum.case if_False not_True_eq_False fst_conv snd_conv)

lemma GET_blank:
  "snd (GET apple_host_blank) =
     \<lparr> body = \<lparr> hasNvidiaSmi = False, hasMps = True, snap_platform = ''darwin'',
                gpus = [blank_record], error = None \<rparr>,
       status = 200 \<rparr>"
  by (simp add: GET_snd GET_try_snd checkNvidiaSmi_snd probe_command_def mps_step_def
        getMpsInfo_blank blank_exec)

lemma blank_record_fields:
  "mem_total (memory blank_record) = Num NaN"
  "util_memory (utilization blank_record) = Num NaN"
  "mem_used (memory blank_record) = Num (Fin 0)"
  "mem_free (memory blank_record) = Num (Fin 0)"
  "cores blank_record = Some (Num NaN)"
  by (simp_all add: blank_record_def mps_record_def memory_utilization_def)

text \<open>
  Claim C2 as stated fails in both kinds of record. On a line of the query output whose
  temperature and fan-speed columns hold \<open>[N/A]\<close>, the temperature is \<open>NaN\<close>, which
  is not the \<open>'N/A'\<close> marker, and the fan speed is the number \<open>0\<close>. On a host with an
  Apple chip where \<open>hw.memsize\<close> prints an empty line, \<open>vm_stat\<close> prints nothing and
  the core count has no digits, the record that \<open>GET\<close> returns has \<open>memory.total\<close>,
  \<open>utilization.memory\<close> and \<open>cores\<close> equal to \<open>NaN\<close> and \<open>memory.used\<close> and
  \<open>memory.free\<close> equal to \<open>0\<close>.
\<close>

theorem numeric_fields_counterexample:
  "non_numeric (nth_opt (line_items ''0, Test GPU, 525.60, [N/A], 10, 5, 8192, 6000, 2192, [N/A], 150.0, 1500, 7000, [N/A]'') 3)
   \<and> temperature (parse_line ''0, Test GPU, 525.60, [N/A], 10, 5, 8192, 6000, 2192, [N/A], 150.0, 1500, 7000, [N/A]'') = Num NaN
   \<and> temperature (parse_line ''0, Test GPU, 525.60, [N/A], 10, 5, 8192, 6000, 2192, [N/A], 150.0, 1500, 7000, [N/A]'') \<noteq> unknown
   \<and> non_numeric (nth_opt (line_items ''0, Test GPU, 525.60, [N/A], 10, 5, 8192, 6000, 2192, [N/A], 150.0, 1500, 7000, [N/A]'') 13)
   \<and> fan_speed (fan (parse_line ''0, Test GPU, 525.60, [N/A], 10, 5, 8192, 6000, 2192, [N/A], 150.0, 1500, 7000, [N/A]'')) = Num (Fin 0)
   \<and> fan_speed (fan (parse_line ''0, Test GPU, 525.60, [N/A], 10, 5, 8192, 6000, 2192, [N/A], 150.0, 1500, 7000, [N/A]'')) \<noteq> unknown
   \<and> exec apple_host_blank ''sysctl -n hw.memsize'' = Inr ''\<newline>''
   \<and> exec apple_host_blank ''vm_stat'' = Inr []
   \<and> exec apple_host_blank cores_command = Inr ''      Total Number of Cores: n/a\<newline>''
   \<and> gpus (body (snd (GET apple_host_blank))) = [blank_record]
   \<and> mem_total (memory blank_record) = Num NaN
   \<and> mem_total (memory blank_record) \<noteq> unknown
   \<and> util_memory (utilization blank_record) = Num NaN
   \<and> util_memory (utilization blank_record) \<noteq> unknown
   \<and> mem_used (memory blank_record) = Num (Fin 0)
   \<and> mem_free (memory blank_record) = Num (Fin 0)
   \<and> cores blank_record = Some (Num NaN)"
  unfolding parse_line_int_fields parse_line_fan items_not_available
  by (simp add: eval_nat_numeral non_numeric_not_available
        non_numeric_parseInt [of "Some ''[N/A]''", simplified] num_or_def unknown_def
        blank_exec GET_blank blank_record_fields)

lemma getMpsInfo_fields:
  assumes "snd (getMpsInfo h) = Some r"
  shows "mem_used (memory r) = fst (vm_stat_memory (exec h ''vm_stat''))"
    and "mem_free (memory r) = snd (vm_stat_memory (exec h ''vm_stat''))"
    and "cores r = gpu_cores (exec h cores_command)"
    and "\<exists>gb. util_memory (utilization r) =
           memory_utilization (fst (vm_stat_memory (exec h ''vm_stat''))) gb"
    and "\<exists>n. mem_total (memory r) = Num n"
  using assms
  by (auto simp add: getMpsInfo_snd mps_record_def split: sum.splits if_splits)

lemma vm_stat_rejected:
  assumes "snd (getMpsInfo h) = Some r" and "isl (exec h ''vm_stat'')"
  shows "mem_used (memory r) = unknown" and "mem_free (memory r) = unknown"
    and "util_memory (utilization r) = unknown"
proof -
  from assms(2) have v: "vm_stat_memory (exec h ''vm_stat'') = (Str ''N/A'', Str ''N/A'')"
    by (cases "exec h ''vm_stat''") (simp_all add: vm_stat_memory_def)
  show "mem_used (memory r) = unknown" and "mem_free (memory r) = unknown"
    by (simp_all add: getMpsInfo_fields [OF assms(1)] v unknown_def)
  from getMpsInfo_fields(4) [OF assms(1)] show "util_memory (utilization r) = unknown"
    by (auto simp add: v memory_utilization_def unknown_def)
qed

lemma cores_rejected:
  assumes "snd (getMpsInfo h) = Some r" and "isl (exec h cores_command)"
  shows "cores r = None"
  using assms(2)
  by (cases "exec h cores_command") (simp_all add: getMpsInfo_fields [OF assms(1)] gpu_cores_def)

lemma cores_non_numeric:
  assumes "snd (getMpsInfo h) = Some r" and "exec h cores_command = Inr out"
    and "nth_opt (split out '':'') 1 = Some x" and "non_numeric (Some (trim x))"
  shows "cores r = Some (Num NaN)"
  using assms(2,3) non_numeric_parseInt [OF assms(4)]
  by (simp add: getMpsInfo_fields [OF assms(1)] gpu_cores_def)

lemma total_non_numeric:
  assumes "snd (getMpsInfo h) = Some r" and "exec h ''sysctl -n hw.memsize'' = Inr memInfo"
    and "non_numeric (Some (trim memInfo))"
  shows "mem_total (memory r) = Num NaN"
  using non_numeric_parseInt [OF assms(3)]
  by (simp add: getMpsInfo_total [OF assms(1,2)])

lemma free_unmatched:
  assumes "snd (getMpsInfo h) = Some r" and "exec h ''vm_stat'' = Inr vmStat"
    and "match_label ''Pages free:'' vmStat = None"
  shows "mem_free (memory r) = Num (Fin 0)"
  using assms(2)
  by (simp add: getMpsInfo_fields [OF assms(1)] vm_stat_memory_def pages_unmatched [OF assms(3)]
        pageSize_def Let_def floor_eq_iff)

lemma used_unmatched:
  assumes "snd (getMpsInfo h) = Some r" and "exec h ''vm_stat'' = Inr vmStat"
    and "match_label ''Pages active:'' vmStat = None"
    and "match_label ''Pages wired down:'' vmStat = None"
    and "match_label ''Pages inactive:'' vmStat = None"
  shows "mem_used (memory r) = Num (Fin 0)"
  using assms(2)
  by (simp add: getMpsInfo_fields [OF assms(1)] vm_stat_memory_def pages_unmatched [OF assms(3)]
        pages_unmatched [OF assms(4)] pages_unmatched [OF assms(5)] pageSize_def Let_def floor_eq_iff)

lemma cuda_non_numeric:
  "non_numeric (nth_opt (line_items line) 0) \<Longrightarrow> index (parse_line line) = Num NaN"
  "non_numeric (nth_opt (line_items line) 3) \<Longrightarrow> temperature (parse_line line) = Num NaN"
  "non_numeric (nth_opt (line_items line) 4) \<Longrightarrow>
     util_gpu (utilization (parse_line line)) = Num NaN"
  "non_numeric (nth_opt (line_items line) 5) \<Longrightarrow>
     util_memory (utilization (parse_line line)) = Num NaN"
  "non_numeric (nth_opt (line_items line) 6) \<Longrightarrow> mem_total (memory (parse_line line)) = Num NaN"
  "non_numeric (nth_opt (line_items line) 7) \<Longrightarrow> mem_free (memory (parse_line line)) = Num NaN"
  "non_numeric (nth_opt (line_items line) 8) \<Longrightarrow> mem_used (memory (parse_line line)) = Num NaN"
  "non_numeric (nth_opt (line_items line) 9) \<Longrightarrow>
     power_draw (gpu_power (parse_line line)) = Num NaN"
  "non_numeric (nth_opt (line_items line) 10) \<Longrightarrow>
     power_limit (gpu_power (parse_line line)) = Num NaN"
  "non_numeric (nth_opt (line_items line) 11) \<Longrightarrow>
     clocks_graphics (clocks (parse_line line)) = Num NaN"
  "non_numeric (nth_opt (line_items line) 12) \<Longrightarrow>
     clocks_memory (clocks (parse_line line)) = Num NaN"
  "non_numeric (nth_opt (line_items line) 13) \<Longrightarrow>
     fan_speed (fan (parse_line line)) = Num (Fin 0)"
  by (simp_all add: parse_line_int_fields parse_line_float_fields parse_line_fan
        non_numeric_parseInt non_numeric_parseFloat num_or_def)

lemma cuda_never_unknown:
  "index (parse_line line) \<noteq> unknown" "temperature (parse_line line) \<noteq> unknown"
  "util_gpu (utilization (parse_line line)) \<noteq> unknown"
  "util_memory (utilization (parse_line line)) \<noteq> unknown"
  "mem_total (memory (parse_line line)) \<noteq> unknown"
  "mem_free (memory (parse_line line)) \<noteq> unknown"
  "mem_used (memory (parse_line line)) \<noteq> unknown"
  "power_draw (gpu_power (parse_line line)) \<noteq> unknown"
  "power_limit (gpu_power (parse_line line)) \<noteq> unknown"
  "clocks_graphics (clocks (parse_line line)) \<noteq> unknown"
  "clocks_memory (clocks (parse_line line)) \<noteq> unknown"
  "fan_speed (fan (parse_line line)) \<noteq> unknown"
  by (simp_all add: parse_line_int_fields parse_line_float_fields parse_line_fan unknown_def)

lemma mps_total_not_unknown:
  assumes "snd (getMpsInfo h) = Some r"
  shows "mem_total (memory r) \<noteq> unknown"
  using getMpsInfo_fields(5) [OF assms] by (auto simp add: unknown_def)

text \<open>
  Claim C2, amended. In a record parsed from a line of the query output no numeric field
  is ever the \<open>'N/A'\<close> marker: a column whose token, after leading white space, starts
  with neither a digit, a sign, a point nor \<open>Infinity\<close> is read as \<open>NaN\<close>, and the
  fan-speed column as the number \<open>0\<close>. In a record of the integrated GPU,
  \<open>temperature\<close>, \<open>utilization.gpu\<close>, \<open>power.draw\<close>, \<open>power.limit\<close>,
  \<open>clocks.graphics\<close>, \<open>clocks.memory\<close> and \<open>fan.speed\<close> are always the marker;
  when the \<open>vm_stat\<close> command is rejected, \<open>memory.used\<close>, \<open>memory.free\<close> and
  \<open>utilization.memory\<close> are the marker; when the command of the core count is
  rejected, the \<open>cores\<close> key is missing. A tool that answers without a number does not
  give the marker: \<open>memory.total\<close> is never the marker and is \<open>NaN\<close> for an output of
  \<open>hw.memsize\<close> that holds no number, \<open>cores\<close> is \<open>NaN\<close> when no number follows
  the colon, \<open>memory.free\<close> is \<open>0\<close> when the label of the free pages is not matched,
  and \<open>memory.used\<close> is \<open>0\<close> when none of its three labels is matched. Nothing is
  said here of \<open>utilization.memory\<close> when \<open>vm_stat\<close> answers.
\<close>

theorem non_numeric_fields:
  "(non_numeric (nth_opt (line_items line) 0) \<longrightarrow> index (parse_line line) = Num NaN)
   \<and> (non_numeric (nth_opt (line_items line) 3) \<longrightarrow> temperature (parse_line line) = Num NaN)
   \<and> (non_numeric (nth_opt (line_items line) 4) \<longrightarrow>
        util_gpu (utilization (parse_line line)) = Num NaN)
   \<and> (non_numeric (nth_opt (line_items line) 5) \<longrightarrow>
        util_memory (utilization (parse_line line)) = Num NaN)
   \<and> (non_numeric (nth_opt (line_items line) 6) \<longrightarrow>
        mem_total (memory (parse_line line)) = Num NaN)
   \<and> (non_numeric (nth_opt (line_items line) 7) \<longrightarrow>
        mem_free (memory (parse_line line)) = Num NaN)
   \<and> (non_numeric (nth_opt (line_items line) 8) \<longrightarrow>
        mem_used (memory (parse_line line)) = Num NaN)
   \<and> (non_numeric (nth_opt (line_items line) 9) \<longrightarrow>
        power_draw (gpu_power (parse_line line)) = Num NaN)
   \<and> (non_numeric (nth_opt (line_items line) 10) \<longrightarrow>
        power_limit (gpu_power (parse_line line)) = Num NaN)
   \<and> (non_numeric (nth_opt (line_items line) 11) \<longrightarrow>
        clocks_graphics (clocks (parse_line line)) = Num NaN)
   \<and> (non_numeric (nth_opt (line_items line) 12) \<longrightarrow>
        clocks_memory (clocks (parse_line line)) = Num NaN)
   \<and> (non_numeric (nth_opt (line_items line) 13) \<longrightarrow>
        fan_speed (fan (parse_line line)) = Num (Fin 0))
   \<and> index (parse_line line) \<noteq> unknown
   \<and> temperature (parse_line line) \<noteq> unknown
   \<and> util_gpu (utilization (parse_line line)) \<noteq> unknown
   \<and> util_memory (utilization (parse_line line)) \<noteq> unknown
   \<and> mem_total (memory (parse_line line)) \<noteq> unknown
   \<and> mem_free (memory (parse_line line)) \<noteq> unknown
   \<and> mem_used (memory (parse_line line)) \<noteq> unknown
   \<and> power_draw (gpu_power (parse_line line)) \<noteq> unknown
   \<and> power_limit (gpu_power (parse_line line)) \<noteq> unknown
   \<and> clocks_graphics (clocks (parse_line line)) \<noteq> unknown
   \<and> clocks_memory (clocks (parse_line line)) \<noteq> unknown
   \<and> fan_speed (fan (parse_line line)) \<noteq> unknown
   \<and> (snd (getMpsInfo h) = Some r \<longrightarrow>
        temperature r = unknown \<and> util_gpu (utilization r) = unknown
        \<and> power_draw (gpu_power r) = unknown \<and> power_limit (gpu_power r) = unknown
        \<and> clocks_graphics (clocks r) = unknown \<and> clocks_memory (clocks r) = unknown
        \<and> fan_speed (fan r) = unknown
        \<and> mem_total (memory r) \<noteq> unknown
        \<and> (isl (exec h ''vm_stat'') \<longrightarrow>
             mem_used (memory r) = unknown \<and> mem_free (memory r) = unknown
             \<and> util_memory (utilization r) = unknown)
        \<and> (isl (exec h cores_command) \<longrightarrow> cores r = None)
        \<and> (exec h ''sysctl -n hw.memsize'' = Inr memInfo \<and> non_numeric (Some (trim memInfo)) \<longrightarrow>
             mem_total (memory r) = Num NaN)
        \<and> (exec h ''vm_stat'' = Inr vmStat \<and> match_label ''Pages free:'' vmStat = None \<longrightarrow>
             mem_free (memory r) = Num (Fin 0))
        \<and> (exec h ''vm_stat'' = Inr vmStat \<and> match_label ''Pages active:'' vmStat = None
             \<and> match_label ''Pages wired down:'' vmStat = None
             \<and> match_label ''Pages inactive:'' vmStat = None \<longrightarrow>
             mem_used (memory r) = Num (Fin 0))
        \<and> (exec h cores_command = Inr out \<and> nth_opt (split out '':'') 1 = Some x
             \<and> non_numeric (Some (trim x)) \<longrightarrow>
             cores r = Some (Num NaN)))"
  by (intro conjI impI; (elim conjE)?;
      (erule (4) used_unmatched | erule (3) cores_non_numeric | erule (2) total_non_numeric
       | erule (2) free_unmatched | erule (1) vm_stat_rejected | erule (1) cores_rejected
       | erule getMpsInfo_unknown_fields | erule mps_total_not_unknown
       | erule cuda_non_numeric | rule cuda_never_unknown))

lemma getMpsInfo_no_vm_stat:
  "snd (getMpsInfo apple_host_no_vm_stat) =
     Some (mps_record ''Apple M2 Pro\<newline>'' (Fin 16) (Str ''N/A'') (Str ''N/A'') None)"
  by (simp add: getMpsInfo_snd no_vm_stat_exec includes_apple memsize_16GiB_numeral
        vm_stat_memory_def gpu_cores_def)

theorem non_numeric_fields_witness:
  "non_numeric (Some ''[N/A]'')
   \<and> line_items unavailable_line =
     [''[N/A]'', ''Test GPU'', ''525.60'', ''[N/A]'', ''[N/A]'', ''[N/A]'', ''[N/A]'', ''[N/A]'',
      ''[N/A]'', ''[N/A]'', ''[N/A]'', ''[N/A]'', ''[N/A]'', ''[N/A]'']
   \<and> index (parse_line unavailable_line) = Num NaN
   \<and> temperature (parse_line unavailable_line) = Num NaN
   \<and> util_gpu (utilization (parse_line unavailable_line)) = Num NaN
   \<and> util_memory (utilization (parse_line unavailable_line)) = Num NaN
   \<and> mem_total (memory (parse_line unavailable_line)) = Num NaN
   \<and> mem_free (memory (parse_line unavailable_line)) = Num NaN
   \<and> mem_used (memory (parse_line unavailable_line)) = Num NaN
   \<and> power_draw (gpu_power (parse_line unavailable_line)) = Num NaN
   \<and> power_limit (gpu_power (parse_line unavailable_line)) = Num NaN
   \<and> clocks_graphics (clocks (parse_line unavailable_line)) = Num NaN
   \<and> clocks_memory (clocks (parse_line unavailable_line)) = Num NaN
   \<and> fan_speed (fan (parse_line unavailable_line)) = Num (Fin 0)
   \<and> snd (getMpsInfo apple_host_no_vm_stat) =
        Some (mps_record ''Apple M2 Pro\<newline>'' (Fin 16) (Str ''N/A'') (Str ''N/A'') None)
   \<and> isl (exec apple_host_no_vm_stat ''vm_stat'') = True
   \<and> isl (exec apple_host_no_vm_stat cores_command) = True
   \<and> temperature (mps_record ''Apple M2 Pro\<newline>'' (Fin 16) (Str ''N/A'') (Str ''N/A'') None)
        = unknown
   \<and> fan_speed (fan (mps_record ''Apple M2 Pro\<newline>'' (Fin 16) (Str ''N/A'') (Str ''N/A'') None))
        = unknown
   \<and> mem_used (memory (mps_record ''Apple M2 Pro\<newline>'' (Fin 16) (Str ''N/A'') (Str ''N/A'')
        None)) = unknown
   \<and> mem_free (memory (mps_record ''Apple M2 Pro\<newline>'' (Fin 16) (Str ''N/A'') (Str ''N/A'')
        None)) = unknown
   \<and> util_memory (utilization (mps_record ''Apple M2 Pro\<newline>'' (Fin 16) (Str ''N/A'')
        (Str ''N/A'') None)) = unknown
   \<and> cores (mps_record ''Apple M2 Pro\<newline>'' (Fin 16) (Str ''N/A'') (Str ''N/A'') None) = None
   \<and> snd (getMpsInfo apple_host_blank) = Some blank_record
   \<and> exec apple_host_blank ''sysctl -n hw.memsize'' = Inr ''\<newline>''
   \<and> non_numeric (Some (trim ''\<newline>''))
   \<and> exec apple_host_blank ''vm_stat'' = Inr []
   \<and> match_label ''Pages free:'' [] = None
   \<and> match_label ''Pages active:'' [] = None
   \<and> match_label ''Pages wired down:'' [] = None
   \<and> match_label ''Pages inactive:'' [] = None
   \<and> exec apple_host_blank cores_command = Inr ''      Total Number of Cores: n/a\<newline>''
   \<and> nth_opt (split ''      Total Number of Cores: n/a\<newline>'' '':'') 1 = Some '' n/a\<newline>''
   \<and> non_numeric (Some (trim '' n/a\<newline>''))
   \<and> mem_total (memory blank_record) = Num NaN
   \<and> mem_free (memory blank_record) = Num (Fin 0)
   \<and> mem_used (memory blank_record) = Num (Fin 0)
   \<and> cores blank_record = Some (Num NaN)"
proof -
  have t: "trim ''\<newline>'' = []" by (simp add: trim_def is_ws_def)
  from non_numeric_fields [where line = unavailable_line and h = apple_host_no_vm_stat
      and r = "mps_record ''Apple M2 Pro\<newline>'' (Fin 16) (Str ''N/A'') (Str ''N/A'') None"]
  have a: "index (parse_line unavailable_line) = Num NaN
   \<and> temperature (parse_line unavailable_line) = Num NaN
   \<and> util_gpu (utilization (parse_line unavailable_line)) = Num NaN
   \<and> util_memory (utilization (parse_line unavailable_line)) = Num NaN
   \<and> mem_total (memory (parse_line unavailable_line)) = Num NaN
   \<and> mem_free (memory (parse_line unavailable_line)) = Num NaN
   \<and> mem_used (memory (parse_line unavailable_line)) = Num NaN
   \<and> power_draw (gpu_power (parse_line unavailable_line)) = Num NaN
   \<and> power_limit (gpu_power (parse_line unavailable_line)) = Num NaN
   \<and> clocks_graphics (clocks (parse_line unavailable_line)) = Num NaN
   \<and> clocks_memory (clocks (parse_line unavailable_line)) = Num NaN
   \<and> fan_speed (fan (parse_line unavailable_line)) = Num (Fin 0)
   \<and> temperature (mps_record ''Apple M2 Pro\<newline>'' (Fin 16) (Str ''N/A'') (Str ''N/A'') None)
        = unknown
   \<and> fan_speed (fan (mps_record ''Apple M2 Pro\<newline>'' (Fin 16) (Str ''N/A'') (Str ''N/A'') None))
        = unknown
   \<and> mem_used (memory (mps_record ''Apple M2 Pro\<newline>'' (Fin 16) (Str ''N/A'') (Str ''N/A'')
        None)) = unknown
   \<and> mem_free (memory (mps_record ''Apple M2 Pro\<newline>'' (Fin 16) (Str ''N/A'') (Str ''N/A'')
        None)) = unknown
   \<and> util_memory (utilization (mps_record ''Apple M2 Pro\<newline>'' (Fin 16) (Str ''N/A'')
        (Str ''N/A'') None)) = unknown
   \<and> cores (mps_record ''Apple M2 Pro\<newline>'' (Fin 16) (Str ''N/A'') (Str ''N/A'') None) = None"
    by (simp add: items_unavailable non_numeric_not_available getMpsInfo_no_vm_stat
          no_vm_stat_exec eval_nat_numeral)
  from non_numeric_fields [where line = unavailable_line and h = apple_host_blank
      and r = blank_record
      and memInfo = "''\<newline>''" and vmStat = "[]"
      and out = "''      Total Number of Cores: n/a\<newline>''" and x = "'' n/a\<newline>''"]
  have b: "mem_total (memory blank_record) = Num NaN
   \<and> mem_free (memory blank_record) = Num (Fin 0)
   \<and> mem_used (memory blank_record) = Num (Fin 0)
   \<and> cores blank_record = Some (Num NaN)"
    by (simp add: getMpsInfo_blank blank_exec t match_here_def split_def trim_def is_ws_def
          non_numeric_blank)
  from a b show ?thesis
    by (simp add: items_unavailable non_numeric_not_available getMpsInfo_no_vm_stat
          no_vm_stat_exec getMpsInfo_blank blank_exec t match_here_def split_def trim_def
          is_ws_def non_numeric_blank)
qed


end
